theory Spec2Isabelle
  imports Complex_Main "HOL-Library.Sublist"
begin

section \<open>Roles and permissions (backend/app/core/rbac.py)\<close>

text \<open>
  Identifiers are database integers. Strings are lists of characters; the role names,
  scope names and permission names of the source are ASCII.
\<close>

datatype UserRole = SUPER_ADMIN | ADMIN | USER | GUEST

text \<open>\<^verbatim>\<open>str.lower()\<close> on the ASCII letters; every other character is kept.\<close>

definition lower_char :: "char \<Rightarrow> char" where
  "lower_char c =
     (case map_of (zip ''ABCDEFGHIJKLMNOPQRSTUVWXYZ'' ''abcdefghijklmnopqrstuvwxyz'') c of
        Some l \<Rightarrow> l
      | None \<Rightarrow> c)"

definition lower :: "string \<Rightarrow> string" where
  "lower s = map lower_char s"

text \<open>\<^verbatim>\<open>UserRole(role_name)\<close>: the enum lookup by value; \<^verbatim>\<open>ValueError\<close> is \<^verbatim>\<open>None\<close>.\<close>

definition UserRole_of :: "string \<Rightarrow> UserRole option" where
  "UserRole_of s =
     (if s = ''super_admin'' then Some SUPER_ADMIN
      else if s = ''admin'' then Some ADMIN
      else if s = ''user'' then Some USER
      else if s = ''guest'' then Some GUEST
      else None)"

text \<open>
  A user row: its id and the name of the attached role (\<^verbatim>\<open>user.role.name\<close>);
  \<^verbatim>\<open>None\<close> when no role is attached.
\<close>

record user =
  u_id :: int
  u_role :: "string option"

definition ROLE_PERMISSIONS :: "UserRole \<Rightarrow> string set" where
  "ROLE_PERMISSIONS r =
     (case r of
        SUPER_ADMIN \<Rightarrow> {''all''}
      | ADMIN \<Rightarrow> {''manage_users'', ''manage_projects'', ''manage_documents'',
                  ''upload_documents'', ''delete_project_documents'', ''chat'',
                  ''view_all'', ''view_analytics'', ''view_audit'', ''admin_access''}
      | USER \<Rightarrow> {''upload_documents'', ''delete_own_documents'', ''chat'',
                 ''view_assigned'', ''manage_personal''}
      | GUEST \<Rightarrow> {''chat_limited'', ''view_assigned''})"

definition get_user_role :: "user \<Rightarrow> UserRole" where
  "get_user_role usr =
     (case u_role usr of
        None \<Rightarrow> GUEST
      | Some name \<Rightarrow>
          (case UserRole_of (lower name) of
             Some r \<Rightarrow> r
           | None \<Rightarrow> USER))"

definition get_user_permissions :: "user \<Rightarrow> string set" where
  "get_user_permissions usr = ROLE_PERMISSIONS (get_user_role usr)"

definition has_permission :: "user \<Rightarrow> string \<Rightarrow> bool" where
  "has_permission usr permission =
     (let permissions = get_user_permissions usr in
      if ''all'' \<in> permissions then True else permission \<in> permissions)"

definition is_super_admin :: "user \<Rightarrow> bool" where
  "is_super_admin usr = (get_user_role usr = SUPER_ADMIN)"

definition is_admin :: "user \<Rightarrow> bool" where
  "is_admin usr = (get_user_role usr \<in> {SUPER_ADMIN, ADMIN})"


section \<open>Configuration (backend/app/core/config.py)\<close>

text \<open>
  The settings the modelled code reads. They come from the environment, so they are
  parameters; \<^verbatim>\<open>default_settings\<close> holds the defaults of the source. Similarity
  scores, thresholds and the confidence are Python floats; the model computes with exact
  rationals.
\<close>

record settings =
  MIN_SIMILARITY_SCORE :: rat
  MAX_RETRIEVAL_DOCS :: int
  RATE_LIMIT_REQUESTS_PER_MINUTE :: int
  CIRCUIT_BREAKER_THRESHOLD :: int
  CIRCUIT_BREAKER_TIMEOUT :: int

definition default_settings :: settings where
  "default_settings =
     \<lparr>MIN_SIMILARITY_SCORE = 1 / 2, MAX_RETRIEVAL_DOCS = 5,
      RATE_LIMIT_REQUESTS_PER_MINUTE = 30, CIRCUIT_BREAKER_THRESHOLD = 5,
      CIRCUIT_BREAKER_TIMEOUT = 60\<rparr>"


section \<open>The database facts the decision functions read\<close>

record project =
  p_id :: int
  p_is_active :: bool
  p_is_private :: bool
  p_created_by_id :: int

text \<open>A row of the association table \<^verbatim>\<open>user_projects\<close>.\<close>

record membership =
  m_user_id :: int
  m_project_id :: int
  m_role_in_project :: "string option"

record document =
  d_id :: int
  d_access_scope :: string
  d_project_id :: int
  d_uploaded_by_id :: int

record db =
  projects :: "project list"
  user_projects :: "membership list"
  documents :: "document list"

text \<open>\<^verbatim>\<open>user in project.users\<close>: a row of the association table joins the two.\<close>

definition user_in_project :: "user \<Rightarrow> project \<Rightarrow> db \<Rightarrow> bool" where
  "user_in_project usr prj d =
     (\<exists>m \<in> set (user_projects d). m_user_id m = u_id usr \<and> m_project_id m = p_id prj)"

text \<open>\<^verbatim>\<open>user.projects\<close>: the projects the association table assigns to the user.\<close>

definition projects_of_user :: "user \<Rightarrow> db \<Rightarrow> project list" where
  "projects_of_user usr d = filter (\<lambda>prj. user_in_project usr prj d) (projects d)"

definition check_project_access :: "int \<Rightarrow> user \<Rightarrow> db \<Rightarrow> bool \<Rightarrow> bool" where
  "check_project_access project_id usr d require_admin =
     (if is_super_admin usr then True
      else if is_admin usr \<and> \<not> require_admin then True
      else
        (case find (\<lambda>prj. p_id prj = project_id) (projects d) of
           None \<Rightarrow> False
         | Some prj \<Rightarrow>
             if p_created_by_id prj = u_id usr then True
             else if user_in_project usr prj d then
               (if require_admin then
                  (case find (\<lambda>m. m_user_id m = u_id usr \<and> m_project_id m = project_id)
                          (user_projects d) of
                     Some m \<Rightarrow> m_role_in_project m = Some ''admin''
                   | None \<Rightarrow> False)
                else True)
             else if \<not> p_is_private prj then \<not> require_admin
             else False))"

text \<open>
  The source returns \<^verbatim>\<open>list(set(project_ids))\<close> for the non-admin roles: the
  elements without duplicates, in an order Python does not fix. The model removes the
  duplicates and keeps the order of first occurrence; the theorems speak of the set only.
\<close>

definition get_accessible_project_ids :: "user \<Rightarrow> db \<Rightarrow> int list" where
  "get_accessible_project_ids usr d =
     (if is_super_admin usr \<or> is_admin usr then
        map p_id (filter p_is_active (projects d))
      else
        (let member_ids = map p_id (filter p_is_active (projects_of_user usr d));
             created_ids = map p_id (filter (\<lambda>prj. p_created_by_id prj = u_id usr \<and> p_is_active prj)
                                       (projects d));
             public_ids = map p_id (filter (\<lambda>prj. \<not> p_is_private prj \<and> p_is_active prj)
                                      (projects d))
         in remdups (member_ids @ created_ids @ public_ids)))"

text \<open>
  \<^verbatim>\<open>check_document_access\<close>. The scope is the string stored with the document and
  the action is the string the caller passes (\<^verbatim>\<open>view\<close>, \<^verbatim>\<open>edit\<close>,
  \<^verbatim>\<open>delete\<close>).
\<close>

definition check_document_access :: "int \<Rightarrow> user \<Rightarrow> db \<Rightarrow> string \<Rightarrow> bool" where
  "check_document_access document_id usr d action =
     (if is_super_admin usr then True
      else
        (case find (\<lambda>doc. d_id doc = document_id) (documents d) of
           None \<Rightarrow> False
         | Some doc \<Rightarrow>
             (let access_scope = d_access_scope doc in
              if d_uploaded_by_id doc = u_id usr then True
              else if is_admin usr \<and> access_scope \<noteq> ''personal'' then True
              else if access_scope = ''organization'' then action \<in> set [''view'']
              else if access_scope = ''project'' then
                (if \<not> check_project_access (d_project_id doc) usr d False then False
                 else if action \<in> set [''edit'', ''delete''] then
                   check_project_access (d_project_id doc) usr d True
                 else True)
              else if access_scope = ''personal'' then d_uploaded_by_id doc = u_id usr
              else False)))"

text \<open>The sets the properties compare with.\<close>

definition created_project_ids :: "user \<Rightarrow> db \<Rightarrow> int set" where
  "created_project_ids usr d =
     set (map p_id (filter (\<lambda>prj. p_created_by_id prj = u_id usr) (projects d)))"

definition active_created_project_ids :: "user \<Rightarrow> db \<Rightarrow> int set" where
  "active_created_project_ids usr d =
     set (map p_id (filter (\<lambda>prj. p_created_by_id prj = u_id usr \<and> p_is_active prj)
                      (projects d)))"

definition public_active_project_ids :: "db \<Rightarrow> int set" where
  "public_active_project_ids d =
     set (map p_id (filter (\<lambda>prj. \<not> p_is_private prj \<and> p_is_active prj) (projects d)))"

text \<open>
  \<^verbatim>\<open>get_document_filter_for_user\<close>: the filter criteria as a dictionary, one optional
  field per key; the \<^verbatim>\<open>HTTPException\<close> it raises is the left summand. The test
  \<^verbatim>\<open>if project_id:\<close> is Python truthiness: \<^verbatim>\<open>None\<close> and \<^verbatim>\<open>0\<close> both fail it.
\<close>

record filters =
  f_project_id :: "int option"
  f_project_ids :: "int list option"
  f_exclude_personal_not_owned :: "int option"
  f_user_id :: "int option"
  f_access_scope_filter :: "bool option"

datatype http_exception = HTTPException int string

definition empty_filters :: filters where
  "empty_filters = \<lparr>f_project_id = None, f_project_ids = None,
     f_exclude_personal_not_owned = None, f_user_id = None, f_access_scope_filter = None\<rparr>"

definition truthy_id :: "int option \<Rightarrow> bool" where
  "truthy_id project_id = (case project_id of None \<Rightarrow> False | Some p \<Rightarrow> p \<noteq> 0)"

definition get_document_filter_for_user ::
    "user \<Rightarrow> db \<Rightarrow> int option \<Rightarrow> http_exception + filters" where
  "get_document_filter_for_user usr d project_id =
     (if is_super_admin usr then
        Inr (if truthy_id project_id then empty_filters\<lparr>f_project_id := project_id\<rparr>
             else empty_filters)
      else if is_admin usr then
        Inr ((if truthy_id project_id then empty_filters\<lparr>f_project_id := project_id\<rparr>
              else empty_filters)\<lparr>f_exclude_personal_not_owned := Some (u_id usr)\<rparr>)
      else
        (let accessible_projects = get_accessible_project_ids usr d in
         if truthy_id project_id then
           (if the project_id \<notin> set accessible_projects then
              Inl (HTTPException 403 ''No access to this project'')
            else
              Inr (empty_filters\<lparr>f_project_id := project_id, f_user_id := Some (u_id usr),
                     f_access_scope_filter := Some True\<rparr>))
         else
           Inr (empty_filters\<lparr>f_project_ids := Some accessible_projects,
                  f_user_id := Some (u_id usr), f_access_scope_filter := Some True\<rparr>)))"

text \<open>\<^verbatim>\<open>get_rbac_context\<close>, the keys the vector search reads.\<close>

record rbac_context =
  rc_is_super_admin :: bool
  rc_is_admin :: bool
  rc_accessible_project_ids :: "int list"
  rc_super_admin_user_id :: "int option"

definition get_rbac_context :: "user \<Rightarrow> db \<Rightarrow> rbac_context" where
  "get_rbac_context usr d =
     \<lparr>rc_is_super_admin = is_super_admin usr, rc_is_admin = is_admin usr,
      rc_accessible_project_ids = get_accessible_project_ids usr d,
      rc_super_admin_user_id = None\<rparr>"


section \<open>Retrieval filter (backend/app/services/vector_service.py)\<close>

text \<open>
  The payload stored with every chunk by \<^verbatim>\<open>add_document_chunks\<close>; the last three
  fields are the access-control fields.
\<close>

record payload =
  pl_document_id :: int
  pl_chunk_index :: int
  pl_content :: string
  pl_page_number :: "int option"
  pl_section_title :: "string option"
  pl_filename :: "string option"
  pl_project_id :: "int option"
  pl_user_id :: "int option"
  pl_access_scope :: string

datatype pyval = PNone | PInt int | PStr string

definition opt_int :: "int option \<Rightarrow> pyval" where
  "opt_int v = (case v of None \<Rightarrow> PNone | Some i \<Rightarrow> PInt i)"

definition opt_str :: "string option \<Rightarrow> pyval" where
  "opt_str v = (case v of None \<Rightarrow> PNone | Some s \<Rightarrow> PStr s)"

definition payload_get :: "payload \<Rightarrow> string \<Rightarrow> pyval" where
  "payload_get pl key =
     (if key = ''document_id'' then PInt (pl_document_id pl)
      else if key = ''chunk_index'' then PInt (pl_chunk_index pl)
      else if key = ''content'' then PStr (pl_content pl)
      else if key = ''page_number'' then opt_int (pl_page_number pl)
      else if key = ''section_title'' then opt_str (pl_section_title pl)
      else if key = ''filename'' then opt_str (pl_filename pl)
      else if key = ''project_id'' then opt_int (pl_project_id pl)
      else if key = ''user_id'' then opt_int (pl_user_id pl)
      else if key = ''access_scope'' then PStr (pl_access_scope pl)
      else PNone)"

text \<open>
  The filter expressions the source builds with the vector store's client:
  \<^verbatim>\<open>FieldCondition(key, match)\<close> and \<^verbatim>\<open>Filter(must, should, min_should)\<close>, which
  nest.
\<close>

datatype match = MatchValue pyval | MatchAny "pyval list"

datatype condition =
    FieldCondition string match
  | Filter "condition list" "condition list" "nat option"

text \<open>
  Modelled from the spec: how the vector store evaluates a filter on a chunk. The store
  is an external collaborator; the spec fixes the meaning the compiler relies on: a
  conjunction of the \<^verbatim>\<open>must\<close> clauses with a disjunction of the \<^verbatim>\<open>should\<close>
  clauses, of which at least one (at least \<^verbatim>\<open>min_should\<close>, when given) must match.
  A missing or null field matches no value.
\<close>

definition match_value :: "match \<Rightarrow> pyval \<Rightarrow> bool" where
  "match_value m v =
     (v \<noteq> PNone \<and> (case m of MatchValue w \<Rightarrow> v = w | MatchAny ws \<Rightarrow> v \<in> set ws))"

fun admits :: "condition \<Rightarrow> payload \<Rightarrow> bool" where
  "admits (FieldCondition key m) pl = match_value m (payload_get pl key)"
| "admits (Filter must should min_should) pl =
     ((\<forall>c \<in> set must. admits c pl) \<and>
      (should = [] \<or>
       (case min_should of None \<Rightarrow> 1 | Some k \<Rightarrow> k) \<le> length (filter (\<lambda>c. admits c pl) should)))"

definition admits_opt :: "condition option \<Rightarrow> payload \<Rightarrow> bool" where
  "admits_opt f pl = (case f of None \<Rightarrow> True | Some c \<Rightarrow> admits c pl)"

text \<open>
  The filter-building block of \<^verbatim>\<open>search_similar\<close> (the non-mock path). It
  returns early with the access-denied result, or leaves \<^verbatim>\<open>search_filter\<close>
  (possibly \<^verbatim>\<open>None\<close>) for the query, or raises: the final
  \<^verbatim>\<open>Filter(must=..., should=..., min_should=1)\<close> passes the integer 1 where the
  client library's model takes a \<^verbatim>\<open>MinShould\<close> object (conditions and a count), so
  whenever the \<^verbatim>\<open>should\<close> list is not empty the constructor fails validation and no
  filter exists. The conditions collected up to that point were built
  (\<^verbatim>\<open>visibility_conditions\<close> is the \<^verbatim>\<open>should\<close> list).
\<close>

datatype filter_outcome = Denied | Use "condition option" | Invalid

definition scope_is :: "string \<Rightarrow> condition" where
  "scope_is v = Filter [FieldCondition ''access_scope'' (MatchValue (PStr v))] [] None"

definition uploaded_by :: "int \<Rightarrow> condition" where
  "uploaded_by u = Filter [FieldCondition ''user_id'' (MatchValue (PInt u))] [] None"

definition visibility_conditions :: "int option \<Rightarrow> int option \<Rightarrow> condition list" where
  "visibility_conditions user_id super_admin_user_id =
     [scope_is ''organization'', scope_is ''project'']
     @ (case user_id of None \<Rightarrow> [] | Some u \<Rightarrow> [uploaded_by u])
     @ (case super_admin_user_id of None \<Rightarrow> [] | Some u \<Rightarrow> [uploaded_by u])"

definition final_filter :: "condition list \<Rightarrow> condition list \<Rightarrow> filter_outcome" where
  "final_filter filter_conditions should_conditions =
     (if filter_conditions \<noteq> [] \<or> should_conditions \<noteq> [] then
        (if should_conditions \<noteq> [] then Invalid
         else if filter_conditions \<noteq> [] then Use (Some (Filter filter_conditions [] None))
         else Use None)
      else Use None)"

definition search_similar_filter ::
    "int option \<Rightarrow> int option \<Rightarrow> rbac_context option \<Rightarrow> int list option \<Rightarrow> filter_outcome" where
  "search_similar_filter project_id user_id rbac_context document_ids =
     (if (case document_ids of None \<Rightarrow> False | Some ids \<Rightarrow> ids \<noteq> [] \<and> 0 < length ids) then
        Use (Some (Filter [FieldCondition ''document_id''
                             (MatchAny (map PInt (the document_ids)))] [] None))
      else
        (let is_super_admin = (case rbac_context of None \<Rightarrow> False | Some rc \<Rightarrow> rc_is_super_admin rc);
             is_admin = (case rbac_context of None \<Rightarrow> False | Some rc \<Rightarrow> rc_is_admin rc);
             accessible_projects =
               (case rbac_context of None \<Rightarrow> [] | Some rc \<Rightarrow> rc_accessible_project_ids rc);
             super_admin_user_id =
               (case rbac_context of None \<Rightarrow> None | Some rc \<Rightarrow> rc_super_admin_user_id rc);
             project_is = (\<lambda>p. FieldCondition ''project_id'' (MatchValue (PInt p)))
         in
         if is_super_admin then
           final_filter (case project_id of None \<Rightarrow> [] | Some p \<Rightarrow> [project_is p]) []
         else if is_admin then
           final_filter (case project_id of None \<Rightarrow> [] | Some p \<Rightarrow> [project_is p])
             (visibility_conditions user_id super_admin_user_id)
         else
           (case project_id of
              Some p \<Rightarrow>
                if p \<notin> set accessible_projects then Denied
                else final_filter [project_is p]
                       (visibility_conditions user_id super_admin_user_id)
            | None \<Rightarrow>
                final_filter
                  (if accessible_projects \<noteq> [] then
                     [FieldCondition ''project_id'' (MatchAny (map PInt accessible_projects))]
                   else [])
                  (visibility_conditions user_id super_admin_user_id))))"

text \<open>
  How the filter-building block reads the context: a missing context counts as a
  standard caller with no accessible project.
\<close>

definition standard_tier :: "rbac_context option \<Rightarrow> bool" where
  "standard_tier rbac_context =
     (case rbac_context of
        None \<Rightarrow> True
      | Some rc \<Rightarrow> \<not> rc_is_super_admin rc \<and> \<not> rc_is_admin rc)"

definition accessible_of :: "rbac_context option \<Rightarrow> int list" where
  "accessible_of rbac_context =
     (case rbac_context of None \<Rightarrow> [] | Some rc \<Rightarrow> rc_accessible_project_ids rc)"

text \<open>
  The entries of \<^verbatim>\<open>results\<close>: what \<^verbatim>\<open>search_similar\<close> builds from a hit. Every
  key is present; the optional locators may be \<^verbatim>\<open>None\<close>.
\<close>

record metadata =
  md_document_id :: int
  md_filename :: "string option"
  md_page_number :: "int option"
  md_section_title :: "string option"
  md_chunk_index :: int
  md_access_scope :: string
  md_project_id :: "int option"

record context_doc =
  cd_content :: string
  cd_metadata :: metadata
  cd_similarity_score :: rat
  cd_document_id :: int
  cd_chunk_index :: int

definition format_hit :: "payload \<times> rat \<Rightarrow> context_doc" where
  "format_hit hit =
     (case hit of (pl, score) \<Rightarrow>
        \<lparr>cd_content = pl_content pl,
         cd_metadata = \<lparr>md_document_id = pl_document_id pl, md_filename = pl_filename pl,
            md_page_number = pl_page_number pl, md_section_title = pl_section_title pl,
            md_chunk_index = pl_chunk_index pl, md_access_scope = pl_access_scope pl,
            md_project_id = pl_project_id pl\<rparr>,
         cd_similarity_score = score,
         cd_document_id = pl_document_id pl,
         cd_chunk_index = pl_chunk_index pl\<rparr>)"

text \<open>The dictionary \<^verbatim>\<open>search_similar\<close> returns; an absent key is \<^verbatim>\<open>None\<close>.\<close>

record search_result =
  sr_query :: string
  sr_results :: "context_doc list"
  sr_total_results :: nat
  sr_error :: "string option"
  sr_rbac_applied :: "bool option"

text \<open>
  \<^verbatim>\<open>_mock_search\<close>: the in-memory store used when the embedding model or the vector
  store is not installed. Each stored chunk comes with its similarity to the query (the
  cosine of two embeddings, computed outside the model). The explicit document ids are
  not passed to this path.
\<close>

definition mock_visible ::
    "int option \<Rightarrow> int option \<Rightarrow> rbac_context option \<Rightarrow> payload \<Rightarrow> bool" where
  "mock_visible project_id user_id rbac_context pl =
     (let is_super_admin = (case rbac_context of None \<Rightarrow> False | Some rc \<Rightarrow> rc_is_super_admin rc);
          is_admin = (case rbac_context of None \<Rightarrow> False | Some rc \<Rightarrow> rc_is_admin rc);
          accessible_projects =
            (case rbac_context of None \<Rightarrow> [] | Some rc \<Rightarrow> rc_accessible_project_ids rc);
          in_accessible =
            (case pl_project_id pl of None \<Rightarrow> False | Some p \<Rightarrow> p \<in> set accessible_projects)
      in
      if \<not> is_super_admin then
        (if (case project_id of
               Some p \<Rightarrow> pl_project_id pl \<noteq> Some p
             | None \<Rightarrow> \<not> is_admin \<and> \<not> in_accessible) then False
         else if \<not> is_admin then
           (if pl_access_scope pl = ''personal'' \<and> pl_user_id pl \<noteq> user_id then False
            else if pl_access_scope pl = ''project'' \<and> \<not> in_accessible then False
            else True)
         else
           (if pl_access_scope pl = ''personal'' \<and> pl_user_id pl \<noteq> user_id then False
            else True))
      else True)"

definition mock_search ::
    "(payload \<times> rat) list \<Rightarrow> string \<Rightarrow> nat \<Rightarrow> int option \<Rightarrow> int option \<Rightarrow> rat \<Rightarrow>
     rbac_context option \<Rightarrow> search_result" where
  "mock_search mock_storage query n_results project_id user_id min_score rbac_context =
     (let results =
            map format_hit
              (filter (\<lambda>(pl, similarity).
                          mock_visible project_id user_id rbac_context pl \<and> min_score \<le> similarity)
                 mock_storage);
          sorted_results = take n_results (sort_key (\<lambda>r. - cd_similarity_score r) results)
      in \<lparr>sr_query = query, sr_results = sorted_results,
           sr_total_results = length sorted_results,
           sr_error = None, sr_rbac_applied = Some True\<rparr>)"

text \<open>
  \<^verbatim>\<open>search_similar\<close>. The service instance supplies the mode, the mock storage and
  the vector store's query capability: given the filter, the limit and the score threshold
  it returns the hits, or fails with a message (any exception of the store), which the
  source turns into an error result. Outside mock mode the embedding model may fail on the
  query as well (\<^verbatim>\<open>vs_embedding_failure\<close>); the whole body is inside one
  \<^verbatim>\<open>try\<close>, and the embedding is computed first. The same handler catches the
  validation error of the \<^verbatim>\<open>Filter\<close> constructor; its message, a text of the client
  library, is \<^verbatim>\<open>vs_validation_message\<close>.
\<close>

record vector_service =
  vs_mock_mode :: bool
  vs_mock_storage :: "(payload \<times> rat) list"
  vs_embedding_failure :: "string option"
  vs_validation_message :: string
  vs_query_points :: "condition option \<Rightarrow> nat \<Rightarrow> rat \<Rightarrow> string + (payload \<times> rat) list"

definition search_similar ::
    "settings \<Rightarrow> vector_service \<Rightarrow> string \<Rightarrow> nat \<Rightarrow> int option \<Rightarrow> int option \<Rightarrow>
     rat option \<Rightarrow> rbac_context option \<Rightarrow> int list option \<Rightarrow> search_result" where
  "search_similar cfg vs query n_results project_id user_id min_score_arg rbac_context
       document_ids =
     (let min_score = (case min_score_arg of None \<Rightarrow> MIN_SIMILARITY_SCORE cfg | Some m \<Rightarrow> m) in
      if vs_mock_mode vs then
        mock_search (vs_mock_storage vs) query n_results project_id user_id min_score rbac_context
      else
        (case vs_embedding_failure vs of
           Some e \<Rightarrow>
             \<lparr>sr_query = query, sr_results = [], sr_total_results = 0,
              sr_error = Some e, sr_rbac_applied = None\<rparr>
         | None \<Rightarrow>
        (case search_similar_filter project_id user_id rbac_context document_ids of
           Denied \<Rightarrow>
             \<lparr>sr_query = query, sr_results = [], sr_total_results = 0,
              sr_error = Some ''Access denied to this project'', sr_rbac_applied = None\<rparr>
         | Invalid \<Rightarrow>
             \<lparr>sr_query = query, sr_results = [], sr_total_results = 0,
              sr_error = Some (vs_validation_message vs), sr_rbac_applied = None\<rparr>
         | Use search_filter \<Rightarrow>
             (case vs_query_points vs search_filter n_results min_score of
                Inl e \<Rightarrow>
                  \<lparr>sr_query = query, sr_results = [], sr_total_results = 0,
                   sr_error = Some e, sr_rbac_applied = None\<rparr>
              | Inr hits \<Rightarrow>
                  (let results = map format_hit hits in
                   \<lparr>sr_query = query, sr_results = results, sr_total_results = length results,
                    sr_error = None, sr_rbac_applied = Some True\<rparr>)))))"


section \<open>Resilient inference client (backend/app/services/ai_service.py)\<close>

subsection \<open>Circuit breaker\<close>

text \<open>
  Instants (\<^verbatim>\<open>datetime.utcnow()\<close>) are integers counting microseconds, the resolution
  of Python's \<^verbatim>\<open>datetime\<close>; a \<^verbatim>\<open>timedelta\<close> of \<open>n\<close> seconds is
  \<open>n * 1000000\<close>. Every method takes the instant its clock read returns.
\<close>

datatype CircuitState = CLOSED | OPEN | HALF_OPEN

record CircuitBreaker =
  failure_count :: int
  last_failure_time :: "int option"
  state :: CircuitState

definition new_CircuitBreaker :: CircuitBreaker where
  "new_CircuitBreaker = \<lparr>failure_count = 0, last_failure_time = None, state = CLOSED\<rparr>"

definition seconds :: "int \<Rightarrow> int" where
  "seconds n = n * 1000000"

definition record_failure :: "settings \<Rightarrow> int \<Rightarrow> CircuitBreaker \<Rightarrow> CircuitBreaker" where
  "record_failure cfg now cb =
     (let cb1 = cb\<lparr>failure_count := failure_count cb + 1, last_failure_time := Some now\<rparr> in
      if CIRCUIT_BREAKER_THRESHOLD cfg \<le> failure_count cb1 then cb1\<lparr>state := OPEN\<rparr> else cb1)"

definition record_success :: "CircuitBreaker \<Rightarrow> CircuitBreaker" where
  "record_success cb = cb\<lparr>failure_count := 0, state := CLOSED\<rparr>"

definition can_execute :: "settings \<Rightarrow> int \<Rightarrow> CircuitBreaker \<Rightarrow> bool \<times> CircuitBreaker" where
  "can_execute cfg now cb =
     (if state cb = CLOSED then (True, cb)
      else if state cb = OPEN then
        (case last_failure_time cb of
           Some t \<Rightarrow>
             if now - t > seconds (CIRCUIT_BREAKER_TIMEOUT cfg) then (True, cb\<lparr>state := HALF_OPEN\<rparr>)
             else (False, cb)
         | None \<Rightarrow> (False, cb))
      else (True, cb))"

text \<open>
  The three methods are the only code that writes a breaker. A history of method calls,
  each with the instant it reads, leads from a new breaker to every state the breaker
  can be in.
\<close>

datatype breaker_call = RecordFailure int | RecordSuccess | CanExecute int

fun apply_breaker_call :: "settings \<Rightarrow> CircuitBreaker \<Rightarrow> breaker_call \<Rightarrow> CircuitBreaker" where
  "apply_breaker_call cfg cb (RecordFailure now) = record_failure cfg now cb"
| "apply_breaker_call cfg cb RecordSuccess = record_success cb"
| "apply_breaker_call cfg cb (CanExecute now) = snd (can_execute cfg now cb)"

definition run_breaker :: "settings \<Rightarrow> breaker_call list \<Rightarrow> CircuitBreaker \<Rightarrow> CircuitBreaker" where
  "run_breaker cfg calls cb = foldl (apply_breaker_call cfg) cb calls"

subsection \<open>Rate limiter\<close>

text \<open>
  The exceptions of the client. A \<^verbatim>\<open>RateLimitError\<close> carries either the wait time
  (in seconds) the limiter computed, which the source formats into the message, or the
  provider's message. Any other exception keeps its message.
\<close>

datatype rate_limit_detail = TryAgainIn rat | ProviderLimit string

datatype ai_error =
    HFInferenceError string
  | RateLimitError rate_limit_detail
  | OtherException string

definition total_seconds :: "int \<Rightarrow> rat" where
  "total_seconds us = of_int us / 1000000"

text \<open>
  \<^verbatim>\<open>_check_rate_limit\<close>, under its lock: the result and the new
  \<^verbatim>\<open>request_timestamps\<close>. Reading \<^verbatim>\<open>request_timestamps[0]\<close> of an empty list
  raises \<^verbatim>\<open>IndexError\<close>.
\<close>

definition check_rate_limit :: "settings \<Rightarrow> int \<Rightarrow> int list \<Rightarrow> (ai_error + unit) \<times> int list" where
  "check_rate_limit cfg now request_timestamps =
     (let minute_ago = now - seconds 60;
          ts = filter (\<lambda>t. t > minute_ago) request_timestamps
      in
      if RATE_LIMIT_REQUESTS_PER_MINUTE cfg \<le> int (length ts) then
        (case ts of
           [] \<Rightarrow> (Inl (OtherException ''list index out of range''), ts)
         | t0 # _ \<Rightarrow> (Inl (RateLimitError (TryAgainIn (total_seconds (t0 - minute_ago)))), ts))
      else (Inr (), ts @ [now]))"

text \<open>
  A sequence of calls to the limiter, given the instant each call reads from the clock:
  the \<^verbatim>\<open>request_timestamps\<close> it leaves behind.
\<close>

fun run_rate_limit :: "settings \<Rightarrow> int list \<Rightarrow> int list \<Rightarrow> int list" where
  "run_rate_limit cfg [] request_timestamps = request_timestamps"
| "run_rate_limit cfg (now # later) request_timestamps =
     run_rate_limit cfg later (snd (check_rate_limit cfg now request_timestamps))"

subsection \<open>String helpers\<close>

text \<open>
  \<^verbatim>\<open>needle in hay\<close> on strings is \<^const>\<open>sublist\<close>. \<^verbatim>\<open>str.strip()\<close> removes the
  leading and trailing whitespace characters. A character of the model is a code point
  below 256; among these Python counts as whitespace \<open>0x09\<close> to \<open>0x0D\<close>, \<open>0x1C\<close> to
  \<open>0x1F\<close>, the space \<open>0x20\<close>, the next-line control \<open>0x85\<close> and the no-break space
  \<open>0xA0\<close>. \<^verbatim>\<open>sep.join(parts)\<close> and the decimal rendering of an integer in an
  f-string follow.
\<close>

definition is_space :: "char \<Rightarrow> bool" where
  "is_space c =
     (c \<in> set [CHR 0x09, CHR 0x0A, CHR 0x0B, CHR 0x0C, CHR 0x0D,
               CHR 0x1C, CHR 0x1D, CHR 0x1E, CHR 0x1F, CHR 0x20, CHR 0x85, CHR 0xA0])"

definition strip :: "string \<Rightarrow> string" where
  "strip s = rev (dropWhile is_space (rev (dropWhile is_space s)))"

fun join :: "string \<Rightarrow> string list \<Rightarrow> string" where
  "join sep [] = []"
| "join sep [x] = x"
| "join sep (x # y # ys) = x @ sep @ join sep (y # ys)"

definition digit_char :: "nat \<Rightarrow> char" where
  "digit_char d = ''0123456789'' ! d"

fun str_nat :: "nat \<Rightarrow> string" where
  "str_nat n = (if n < 10 then [digit_char n] else str_nat (n div 10) @ [digit_char (n mod 10)])"

declare str_nat.simps [simp del]

definition str_int :: "int \<Rightarrow> string" where
  "str_int i = (if i < 0 then ''-'' @ str_nat (nat (- i)) else str_nat (nat i))"

text \<open>An f-string renders \<^verbatim>\<open>None\<close> as the text \<^verbatim>\<open>None\<close>.\<close>

definition str_opt :: "string option \<Rightarrow> string" where
  "str_opt v = (case v of None \<Rightarrow> ''None'' | Some s \<Rightarrow> s)"

subsection \<open>The guarded provider call\<close>

text \<open>
  The service state \<^verbatim>\<open>_call_hf_api\<close> reads and writes. What the world contributes to
  one call is \<^verbatim>\<open>call_env\<close>: the instants returned by the clock reads of
  \<^verbatim>\<open>can_execute\<close>, \<^verbatim>\<open>_check_rate_limit\<close> and \<^verbatim>\<open>record_failure\<close>, what the
  response cache holds for the prompt's key, and what the provider does if it is called
  (\<^verbatim>\<open>Inl\<close> the message of the exception, \<^verbatim>\<open>Inr\<close> the generated text). The cache and
  the provider only see the rendered prompt, so the prompt itself is not part of the
  model. The third component of the result tells whether the provider was called.

  The \<^verbatim>\<open>retry\<close> decorator retries on \<^verbatim>\<open>ConnectionError\<close> and
  \<^verbatim>\<open>TimeoutError\<close> only; the body converts every exception of the provider call into
  \<^verbatim>\<open>RateLimitError\<close> or \<^verbatim>\<open>HFInferenceError\<close>, so one invocation is one attempt.
\<close>

record ai_service =
  circuit_breaker :: CircuitBreaker
  request_timestamps :: "int list"
  ai_mock_mode :: bool
  model_name :: string

record call_env =
  t_can_execute :: int
  t_rate_limit :: int
  t_failure :: int
  cached :: "string option"
  provider :: "string + string"

definition call_hf_api ::
    "settings \<Rightarrow> call_env \<Rightarrow> ai_service \<Rightarrow> (ai_error + string) \<times> ai_service \<times> bool" where
  "call_hf_api cfg env s =
     (case can_execute cfg (t_can_execute env) (circuit_breaker s) of
        (ok, cb1) \<Rightarrow>
          (let s1 = s\<lparr>circuit_breaker := cb1\<rparr> in
           if \<not> ok then
             (Inl (HFInferenceError ''Circuit breaker is OPEN - service temporarily unavailable''),
              s1, False)
           else
             (case check_rate_limit cfg (t_rate_limit env) (request_timestamps s1) of
                (Inl e, ts) \<Rightarrow> (Inl e, s1\<lparr>request_timestamps := ts\<rparr>, False)
              | (Inr _, ts) \<Rightarrow>
                  (let s2 = s1\<lparr>request_timestamps := ts\<rparr> in
                   case cached env of
                     Some response_text \<Rightarrow> (Inr response_text, s2, False)
                   | None \<Rightarrow>
                       (case provider env of
                          Inr response_text \<Rightarrow>
                            (Inr response_text,
                             s2\<lparr>circuit_breaker := record_success (circuit_breaker s2)\<rparr>, True)
                        | Inl error_msg \<Rightarrow>
                            (let s3 = s2\<lparr>circuit_breaker :=
                                         record_failure cfg (t_failure env) (circuit_breaker s2)\<rparr>
                             in
                             if sublist ''rate limit'' (lower error_msg) \<or> sublist ''429'' error_msg
                             then (Inl (RateLimitError (ProviderLimit error_msg)), s3, True)
                             else (Inl (HFInferenceError (''HF API error: '' @ error_msg)), s3,
                                   True)))))))"

subsection \<open>Citations and confidence\<close>

record citation =
  ct_document_id :: int
  ct_filename :: "string option"
  ct_page_number :: "int option"
  ct_section_title :: "string option"
  ct_chunk_index :: int
  ct_similarity_score :: rat

definition cite :: "context_doc \<Rightarrow> citation" where
  "cite doc =
     \<lparr>ct_document_id = md_document_id (cd_metadata doc),
      ct_filename = md_filename (cd_metadata doc),
      ct_page_number = md_page_number (cd_metadata doc),
      ct_section_title = md_section_title (cd_metadata doc),
      ct_chunk_index = cd_chunk_index doc,
      ct_similarity_score = cd_similarity_score doc\<rparr>"

fun extract_citations :: "settings \<Rightarrow> context_doc list \<Rightarrow> citation list" where
  "extract_citations cfg [] = []"
| "extract_citations cfg (doc # docs) =
     (if MIN_SIMILARITY_SCORE cfg \<le> cd_similarity_score doc
      then cite doc # extract_citations cfg docs
      else extract_citations cfg docs)"

definition calculate_confidence :: "context_doc list \<Rightarrow> rat" where
  "calculate_confidence context_docs =
     (if context_docs = [] then 1 / 2
      else
        (let scores = map cd_similarity_score context_docs in
         if scores = [] then 1 / 2
         else
           (let avg_score = sum_list scores / of_nat (length scores);
                relevance_bonus =
                  min (of_nat (length (filter (\<lambda>s. s > 7 / 10) scores)) * (5 / 100)) (15 / 100)
            in min (avg_score + relevance_bonus) 1)))"

text \<open>The quantities the confidence is a function of.\<close>

definition average_similarity :: "context_doc list \<Rightarrow> rat" where
  "average_similarity context_docs =
     sum_list (map cd_similarity_score context_docs) / of_nat (length context_docs)"

definition high_relevance_count :: "context_doc list \<Rightarrow> nat" where
  "high_relevance_count context_docs =
     length (filter (\<lambda>doc. cd_similarity_score doc > 7 / 10) context_docs)"

subsection \<open>Degraded-mode answer\<close>

definition fallback_banner :: string where
  "fallback_banner =
     ''**Note: AI service temporarily unavailable. Showing relevant document excerpts:**''
     @ [CHR 0x0A, CHR 0x0A]"

definition fallback_footer :: string where
  "fallback_footer =
     [CHR 0x0A, CHR 0x0A]
     @ ''*For AI-generated answers, please ensure your internet connection is active.*''"

definition excerpt_separator :: string where
  "excerpt_separator = [CHR 0x0A, CHR 0x0A] @ ''---'' @ [CHR 0x0A, CHR 0x0A]"

definition fallback_source :: "context_doc \<Rightarrow> string" where
  "fallback_source doc =
     ''['' @ str_opt (md_filename (cd_metadata doc))
     @ (case md_page_number (cd_metadata doc) of
          None \<Rightarrow> []
        | Some page \<Rightarrow> if page \<noteq> 0 then '', Page '' @ str_int page else [])
     @ '']''"

definition truncate_content :: "string \<Rightarrow> string" where
  "truncate_content content = (if length content > 500 then take 500 content @ ''...'' else content)"

definition fallback_excerpt :: "context_doc \<Rightarrow> string" where
  "fallback_excerpt doc =
     fallback_source doc @ '':'' @ [CHR 0x0A] @ truncate_content (strip (cd_content doc))"

definition relevant_content :: "context_doc list \<Rightarrow> string list" where
  "relevant_content context_docs =
     map fallback_excerpt (filter (\<lambda>doc. strip (cd_content doc) \<noteq> []) (take 3 context_docs))"

definition generate_context_fallback :: "context_doc list \<Rightarrow> string" where
  "generate_context_fallback context_docs =
     (if context_docs = [] then
        ''No relevant documents found to answer your question. Please try a different query.''
      else if relevant_content context_docs = [] then
        ''I found some documents but couldn't extract readable content. Please try rephrasing your question.''
      else
        fallback_banner @ join excerpt_separator (relevant_content context_docs) @ fallback_footer)"

subsection \<open>Answers\<close>

text \<open>
  The dictionary \<^verbatim>\<open>generate_answer\<close> returns, one optional field per key that only
  some branches set. The \<^verbatim>\<open>processing_time\<close> entry (wall-clock seconds) is left out.
  The \<^verbatim>\<open>error\<close> entry is either a fixed text or the rendering of the exception.
\<close>

datatype error_entry = ErrorText string | ErrorOf ai_error

record answer =
  a_answer :: string
  a_citations :: "citation list"
  a_confidence_score :: rat
  a_model_used :: string
  a_error :: "error_entry option"
  a_context_docs_used :: "nat option"
  a_cached :: "bool option"
  a_mock_mode :: "bool option"

definition has_content :: "context_doc list \<Rightarrow> bool" where
  "has_content context_docs = (context_docs \<noteq> [] \<and> (\<exists>doc \<in> set context_docs. cd_content doc \<noteq> []))"

definition generate_mock_response ::
    "ai_service \<Rightarrow> string \<Rightarrow> context_doc list \<Rightarrow> string option \<Rightarrow> answer" where
  "generate_mock_response s query context_docs error =
     (let prefix_text = (case error of
                      Some e \<Rightarrow> if e \<noteq> [] then ''I encountered an error: '' @ e @ ''. '' else []
                    | None \<Rightarrow> []);
          query_lower = lower query;
          body =
            (if sublist ''hello'' query_lower \<or> sublist ''hi'' query_lower then
               ''Hello! I'm your AI Knowledge Assistant. I can help you find information from your company's documents. What would you like to know?''
             else if sublist ''help'' query_lower \<or> sublist ''what can you do'' query_lower
                     \<or> sublist ''purpose'' query_lower then
               ''I'm an AI Knowledge Assistant designed to help you find information from organizational documents. You can ask me questions about policies, procedures, projects, and any documents that have been uploaded to the system.''
             else if has_content context_docs then
               ''Based on the documents, here's relevant information: ''
               @ [CHR 0x27] @ take 200 (cd_content (hd context_docs)) @ ''...'' @ [CHR 0x27]
             else if sublist ''policy'' query_lower \<or> sublist ''procedure'' query_lower then
               ''For policy questions, please ensure relevant documents are uploaded to the system. I can only answer based on documents that have been added.''
             else if sublist ''excel'' query_lower \<or> sublist ''spreadsheet'' query_lower
                     \<or> sublist ''data'' query_lower then
               ''For data analysis, please upload your Excel files and I'll help analyze them with statistics, trends, and anomaly detection.''
             else if ai_mock_mode s then
               ''I'm currently running in demo mode. Please configure the HF_API_TOKEN environment variable to enable full AI capabilities.''
             else
               ''I don't have enough context to answer that question. Please try uploading relevant documents or rephrasing your question.'')
      in \<lparr>a_answer = prefix_text @ body, a_citations = [], a_confidence_score = 1 / 2,
           a_model_used = (if ai_mock_mode s then ''mock'' else model_name s),
           a_error = None, a_context_docs_used = Some (length context_docs),
           a_cached = None, a_mock_mode = Some (ai_mock_mode s)\<rparr>)"

definition generate_answer ::
    "settings \<Rightarrow> call_env \<Rightarrow> ai_service \<Rightarrow> string \<Rightarrow> context_doc list \<Rightarrow> answer \<times> ai_service" where
  "generate_answer cfg env s query context_docs =
     (if ai_mock_mode s then (generate_mock_response s query context_docs None, s)
      else
        (case call_hf_api cfg env s of
           (Inr response_text, s', _) \<Rightarrow>
             (\<lparr>a_answer = strip response_text,
               a_citations = extract_citations cfg context_docs,
               a_confidence_score = calculate_confidence context_docs,
               a_model_used = model_name s,
               a_error = None, a_context_docs_used = Some (length context_docs),
               a_cached = Some False, a_mock_mode = None\<rparr>, s')
         | (Inl (RateLimitError d), s', _) \<Rightarrow>
             (\<lparr>a_answer = ''The AI service is currently experiencing high demand. Please try again in a moment.'',
               a_citations = [], a_confidence_score = 0, a_model_used = model_name s,
               a_error = Some (ErrorOf (RateLimitError d)), a_context_docs_used = None,
               a_cached = None, a_mock_mode = None\<rparr>, s')
         | (Inl (HFInferenceError m), s', _) \<Rightarrow>
             (if has_content context_docs then
                (let fallback_answer = generate_context_fallback context_docs in
                 (\<lparr>a_answer = fallback_answer,
                   a_citations = extract_citations cfg context_docs,
                   a_confidence_score = 1 / 2,
                   a_model_used = ''fallback (HF API unavailable)'',
                   a_error = Some (ErrorText ''AI service temporarily unavailable - showing relevant document excerpts''),
                   a_context_docs_used = None, a_cached = None, a_mock_mode = None\<rparr>, s'))
              else
                (\<lparr>a_answer = ''The AI service is temporarily unavailable due to network issues. Please try again when your internet connection is restored.'',
                  a_citations = [], a_confidence_score = 0, a_model_used = model_name s,
                  a_error = Some (ErrorOf (HFInferenceError m)), a_context_docs_used = None,
                  a_cached = None, a_mock_mode = None\<rparr>, s'))
         | (Inl (OtherException m), s', _) \<Rightarrow>
             (generate_mock_response s' query context_docs (Some m), s')))"

subsection \<open>Sample data\<close>

text \<open>A retrieved chunk of a handbook with the given text and similarity, for the examples.\<close>

definition sample_doc :: "string \<Rightarrow> rat \<Rightarrow> context_doc" where
  "sample_doc content score =
     \<lparr>cd_content = content,
      cd_metadata = \<lparr>md_document_id = 1, md_filename = Some ''handbook.pdf'',
         md_page_number = Some 2, md_section_title = None, md_chunk_index = 0,
         md_access_scope = ''project'', md_project_id = Some 1\<rparr>,
      cd_similarity_score = score, cd_document_id = 1, cd_chunk_index = 0\<rparr>"


section \<open>Properties\<close>

subsection \<open>Personal-scope documents\<close>

lemma admits_visibility_personal:
  assumes "pl_access_scope pl = ''personal''"
    and "c \<in> set (visibility_conditions user_id sa)" "admits c pl"
  shows "pl_user_id pl \<noteq> None \<and> (pl_user_id pl = user_id \<or> pl_user_id pl = sa)"
  using assms
  by (auto simp: visibility_conditions_def scope_is_def uploaded_by_def match_value_def
      payload_get_def opt_int_def split: option.splits)

lemma visibility_conditions_nonempty: "visibility_conditions u sa \<noteq> []"
  by (simp add: visibility_conditions_def)

lemma personal_access_only_owner:
  "find (\<lambda>doc. d_id doc = document_id) (documents d) = Some doc \<and>
      d_access_scope doc = ''personal'' \<and> check_document_access document_id usr d action
      \<longrightarrow> d_uploaded_by_id doc = u_id usr \<or> is_super_admin usr"
  by (auto simp: check_document_access_def Let_def split: if_splits)

lemma personal_access_admin_denied:
  "find (\<lambda>doc. d_id doc = document_id) (documents d) = Some doc \<and>
      d_access_scope doc = ''personal'' \<and> get_user_role usr = ADMIN \<and>
      d_uploaded_by_id doc \<noteq> u_id usr
      \<longrightarrow> \<not> check_document_access document_id usr d action"
  by (simp add: check_document_access_def Let_def is_super_admin_def)

lemma admin_filter_invalid:
  assumes "rc_is_admin rc" "\<not> rc_is_super_admin rc" "document_ids \<in> {None, Some []}"
  shows "search_similar_filter project_id user_id (Some rc) document_ids = Invalid"
  using assms visibility_conditions_nonempty[of user_id "rc_super_admin_user_id rc"]
  by (auto simp: search_similar_filter_def final_filter_def Let_def)

lemma invalid_search_empty:
  assumes "search_similar_filter project_id user_id rbac_context document_ids = Invalid"
    and "\<not> vs_mock_mode vs"
  shows "sr_results (search_similar cfg vs query n_results project_id user_id min_score
           rbac_context document_ids) = []"
  using assms by (simp add: search_similar_def split: option.splits)

lemma admin_filter_personal:
  "rc_is_admin rc \<and> \<not> rc_is_super_admin rc \<and> document_ids \<in> {None, Some []}
   \<longrightarrow> search_similar_filter project_id user_id (Some rc) document_ids = Invalid \<and>
       (\<not> vs_mock_mode vs \<longrightarrow>
          sr_results (search_similar cfg vs query n_results project_id user_id min_score
            (Some rc) document_ids) = []) \<and>
       (\<forall>c \<in> set (visibility_conditions user_id (rc_super_admin_user_id rc)).
          pl_access_scope pl = ''personal'' \<and> admits c pl
          \<longrightarrow> pl_user_id pl \<noteq> None \<and>
              (pl_user_id pl = user_id \<or> pl_user_id pl = rc_super_admin_user_id rc))"
proof
  assume a: "rc_is_admin rc \<and> \<not> rc_is_super_admin rc \<and> document_ids \<in> {None, Some []}"
  then have inv: "search_similar_filter project_id user_id (Some rc) document_ids = Invalid"
    using admin_filter_invalid by blast
  have empty: "\<not> vs_mock_mode vs \<longrightarrow>
      sr_results (search_similar cfg vs query n_results project_id user_id min_score
        (Some rc) document_ids) = []"
    using invalid_search_empty[OF inv] by blast
  have conds: "\<forall>c \<in> set (visibility_conditions user_id (rc_super_admin_user_id rc)).
      pl_access_scope pl = ''personal'' \<and> admits c pl
      \<longrightarrow> pl_user_id pl \<noteq> None \<and>
          (pl_user_id pl = user_id \<or> pl_user_id pl = rc_super_admin_user_id rc)"
    using admits_visibility_personal by blast
  from inv empty conds
  show "search_similar_filter project_id user_id (Some rc) document_ids = Invalid \<and>
       (\<not> vs_mock_mode vs \<longrightarrow>
          sr_results (search_similar cfg vs query n_results project_id user_id min_score
            (Some rc) document_ids) = []) \<and>
       (\<forall>c \<in> set (visibility_conditions user_id (rc_super_admin_user_id rc)).
          pl_access_scope pl = ''personal'' \<and> admits c pl
          \<longrightarrow> pl_user_id pl \<noteq> None \<and>
              (pl_user_id pl = user_id \<or> pl_user_id pl = rc_super_admin_user_id rc))"
    by blast
qed

lemma admin_mock_personal:
  "rc_is_admin rc \<and> \<not> rc_is_super_admin rc \<and> pl_access_scope pl = ''personal'' \<and>
      mock_visible project_id user_id (Some rc) pl
      \<longrightarrow> pl_user_id pl = user_id"
  by (auto simp: mock_visible_def Let_def split: if_splits option.splits)

text \<open>
  Claim C1. A document of scope \<^verbatim>\<open>personal\<close> is accessible, for any action, only to
  its uploader and to a super-admin: if \<^verbatim>\<open>check_document_access\<close> grants access to
  it, the principal is the uploader or a super-admin, and an \<^verbatim>\<open>admin\<close> who is not the
  uploader is denied whatever the action. On the retrieval side, for an admin caller
  without explicit document ids: the alternative conditions the admin branch assembles
  for its filter are met by a \<^verbatim>\<open>personal\<close> chunk only if its uploader is the caller
  or the shared super-admin identity; the filter itself is never handed to the store,
  since its constructor rejects \<^verbatim>\<open>min_should=1\<close>, and the search on the vector-store
  path returns no chunk at all. The mock search of the same service admits a
  \<^verbatim>\<open>personal\<close> chunk only if its uploader is the caller.
\<close>

theorem personal_document_access:
  "(find (\<lambda>doc. d_id doc = document_id) (documents d) = Some doc \<and>
      d_access_scope doc = ''personal'' \<and> check_document_access document_id usr d action
      \<longrightarrow> d_uploaded_by_id doc = u_id usr \<or> is_super_admin usr) \<and>
   (find (\<lambda>doc. d_id doc = document_id) (documents d) = Some doc \<and>
      d_access_scope doc = ''personal'' \<and> get_user_role usr = ADMIN \<and>
      d_uploaded_by_id doc \<noteq> u_id usr
      \<longrightarrow> \<not> check_document_access document_id usr d action) \<and>
   (rc_is_admin rc \<and> \<not> rc_is_super_admin rc \<and> document_ids \<in> {None, Some []}
    \<longrightarrow> search_similar_filter project_id user_id (Some rc) document_ids = Invalid \<and>
        (\<not> vs_mock_mode vs \<longrightarrow>
           sr_results (search_similar cfg vs query n_results project_id user_id min_score
             (Some rc) document_ids) = []) \<and>
        (\<forall>c \<in> set (visibility_conditions user_id (rc_super_admin_user_id rc)).
           pl_access_scope pl = ''personal'' \<and> admits c pl
           \<longrightarrow> pl_user_id pl \<noteq> None \<and>
               (pl_user_id pl = user_id \<or> pl_user_id pl = rc_super_admin_user_id rc))) \<and>
   (rc_is_admin rc \<and> \<not> rc_is_super_admin rc \<and> pl_access_scope pl = ''personal'' \<and>
      mock_visible project_id user_id (Some rc) pl
      \<longrightarrow> pl_user_id pl = user_id)"
  by (rule conjI[OF personal_access_only_owner
        conjI[OF personal_access_admin_denied conjI[OF admin_filter_personal admin_mock_personal]]])

theorem personal_document_access_witness:
  "(check_document_access 10 \<lparr>u_id = 7, u_role = Some ''user''\<rparr>
       \<lparr>projects = [], user_projects = [],
        documents = [\<lparr>d_id = 10, d_access_scope = ''personal'', d_project_id = 1,
                       d_uploaded_by_id = 7\<rparr>]\<rparr> ''view'' \<and>
    (d_uploaded_by_id \<lparr>d_id = 10, d_access_scope = ''personal'', d_project_id = 1,
                       d_uploaded_by_id = 7\<rparr> = u_id \<lparr>u_id = 7, u_role = Some ''user''\<rparr> \<or>
     is_super_admin \<lparr>u_id = 7, u_role = Some ''user''\<rparr>)) \<and>
   (get_user_role \<lparr>u_id = 2, u_role = Some ''admin''\<rparr> = ADMIN \<and>
    \<not> check_document_access 10 \<lparr>u_id = 2, u_role = Some ''admin''\<rparr>
       \<lparr>projects = [], user_projects = [],
        documents = [\<lparr>d_id = 10, d_access_scope = ''personal'', d_project_id = 1,
                       d_uploaded_by_id = 7\<rparr>]\<rparr> ''delete'') \<and>
   (search_similar_filter None (Some 2)
       (Some \<lparr>rc_is_super_admin = False, rc_is_admin = True, rc_accessible_project_ids = [1],
              rc_super_admin_user_id = Some 1\<rparr>) None = Invalid \<and>
    sr_results (search_similar default_settings
       \<lparr>vs_mock_mode = False, vs_mock_storage = [], vs_embedding_failure = None,
        vs_validation_message = ''validation error for Filter'',
        vs_query_points = (\<lambda>f n m. Inr [])\<rparr> ''notes'' 5 None (Some 2) None
       (Some \<lparr>rc_is_super_admin = False, rc_is_admin = True, rc_accessible_project_ids = [1],
              rc_super_admin_user_id = Some 1\<rparr>) None) = [] \<and>
    uploaded_by 2 \<in> set (visibility_conditions (Some 2) (Some 1)) \<and>
    admits (uploaded_by 2)
       \<lparr>pl_document_id = 11, pl_chunk_index = 0, pl_content = ''notes'',
        pl_page_number = None, pl_section_title = None, pl_filename = None,
        pl_project_id = Some 1, pl_user_id = Some 2, pl_access_scope = ''personal''\<rparr> \<and>
    pl_user_id \<lparr>pl_document_id = 11, pl_chunk_index = 0, pl_content = ''notes'',
        pl_page_number = None, pl_section_title = None, pl_filename = None,
        pl_project_id = Some 1, pl_user_id = Some 2, pl_access_scope = ''personal''\<rparr> = Some 2) \<and>
   mock_visible None (Some 2)
       (Some \<lparr>rc_is_super_admin = False, rc_is_admin = True, rc_accessible_project_ids = [1],
              rc_super_admin_user_id = Some 1\<rparr>)
       \<lparr>pl_document_id = 11, pl_chunk_index = 0, pl_content = ''notes'',
        pl_page_number = None, pl_section_title = None, pl_filename = None,
        pl_project_id = Some 1, pl_user_id = Some 2, pl_access_scope = ''personal''\<rparr>"
proof -
  let ?doc = "\<lparr>d_id = 10, d_access_scope = ''personal'', d_project_id = 1, d_uploaded_by_id = 7\<rparr>"
  let ?d = "\<lparr>projects = [], user_projects = [], documents = [?doc]\<rparr>"
  let ?owner = "\<lparr>u_id = 7, u_role = Some ''user''\<rparr>"
  let ?admin = "\<lparr>u_id = 2, u_role = Some ''admin''\<rparr>"
  let ?rc = "\<lparr>rc_is_super_admin = False, rc_is_admin = True, rc_accessible_project_ids = [1],
              rc_super_admin_user_id = Some 1\<rparr>"
  let ?pl = "\<lparr>pl_document_id = 11, pl_chunk_index = 0, pl_content = ''notes'',
        pl_page_number = None, pl_section_title = None, pl_filename = None,
        pl_project_id = Some 1, pl_user_id = Some 2, pl_access_scope = ''personal''\<rparr>"
  let ?vs = "\<lparr>vs_mock_mode = False, vs_mock_storage = [], vs_embedding_failure = None,
        vs_validation_message = ''validation error for Filter'',
        vs_query_points = (\<lambda>f n m. Inr [])\<rparr>"
  have role_owner: "get_user_role ?owner = USER" and role_admin: "get_user_role ?admin = ADMIN"
    by (simp_all add: get_user_role_def lower_def lower_char_def UserRole_of_def)
  have h1: "find (\<lambda>doc. d_id doc = 10) (documents ?d) = Some ?doc \<and>
      d_access_scope ?doc = ''personal'' \<and> check_document_access 10 ?owner ?d ''view''"
    by (simp add: check_document_access_def is_super_admin_def role_owner)
  have h2: "find (\<lambda>doc. d_id doc = 10) (documents ?d) = Some ?doc \<and>
      d_access_scope ?doc = ''personal'' \<and> get_user_role ?admin = ADMIN \<and>
      d_uploaded_by_id ?doc \<noteq> u_id ?admin"
    by (simp add: role_admin)
  have h3: "rc_is_admin ?rc \<and> \<not> rc_is_super_admin ?rc \<and> None \<in> {None, Some []}"
    by simp
  have real: "\<not> vs_mock_mode ?vs" by simp
  have member: "uploaded_by 2 \<in> set (visibility_conditions (Some 2) (Some 1))"
    by (simp add: visibility_conditions_def)
  have adm: "pl_access_scope ?pl = ''personal'' \<and> admits (uploaded_by 2) ?pl"
    by (simp add: uploaded_by_def match_value_def payload_get_def opt_int_def)
  have h4: "rc_is_admin ?rc \<and> \<not> rc_is_super_admin ?rc \<and> pl_access_scope ?pl = ''personal'' \<and>
      mock_visible None (Some 2) (Some ?rc) ?pl"
    by (simp add: mock_visible_def)
  note inst1 = personal_document_access[where document_id = 10 and d = ?d and doc = ?doc
      and action = "''view''" and usr = ?owner and rc = ?rc and document_ids = None
      and project_id = None and user_id = "Some 2" and pl = ?pl and vs = ?vs
      and cfg = default_settings and query = "''notes''" and n_results = 5 and min_score = None]
  note inst2 = personal_document_access[where document_id = 10 and d = ?d and doc = ?doc
      and action = "''delete''" and usr = ?admin and rc = ?rc and document_ids = None
      and project_id = None and user_id = "Some 2" and pl = ?pl and vs = ?vs
      and cfg = default_settings and query = "''notes''" and n_results = 5 and min_score = None]
  from inst1 h1 have c1: "d_uploaded_by_id ?doc = u_id ?owner \<or> is_super_admin ?owner" by blast
  from inst2 h2 have c2: "\<not> check_document_access 10 ?admin ?d ''delete''" by blast
  from inst1 h3 have c3a: "search_similar_filter None (Some 2) (Some ?rc) None = Invalid"
    by blast
  from inst1 h3 real
  have c3b: "sr_results (search_similar default_settings ?vs ''notes'' 5 None (Some 2) None
      (Some ?rc) None) = []"
    by blast
  from inst1 h3
  have "\<forall>c \<in> set (visibility_conditions (Some 2) (rc_super_admin_user_id ?rc)).
      pl_access_scope ?pl = ''personal'' \<and> admits c ?pl
      \<longrightarrow> pl_user_id ?pl \<noteq> None \<and>
          (pl_user_id ?pl = Some 2 \<or> pl_user_id ?pl = rc_super_admin_user_id ?rc)"
    by blast
  with member adm have c3c: "pl_user_id ?pl = Some 2" by simp
  from inst1 h4 have c4: "pl_user_id ?pl = Some 2" by blast
  from h1 h2 h4 c1 c2 c3a c3b member adm c3c c4 show ?thesis by simp
qed

subsection \<open>Role resolution\<close>

text \<open>
  Claim C10. Role resolution is total and defaults away from \<^verbatim>\<open>guest\<close> for unknown
  names: a user with no role attached resolves to \<^verbatim>\<open>GUEST\<close>; a user whose lower-cased
  role name is none of the four defined values resolves to \<^verbatim>\<open>USER\<close> and so holds
  the standard-user permission set, with \<^verbatim>\<open>upload_documents\<close> and \<^verbatim>\<open>chat\<close>, which the
  guest set does not contain.
\<close>

theorem role_resolution_default:
  "(u_role usr = None \<longrightarrow> get_user_role usr = GUEST) \<and>
   (\<forall>name. u_role usr = Some name \<and>
        lower name \<notin> {''super_admin'', ''admin'', ''user'', ''guest''} \<longrightarrow>
        get_user_role usr = USER \<and>
        get_user_permissions usr = ROLE_PERMISSIONS USER \<and>
        has_permission usr ''upload_documents'' \<and> has_permission usr ''chat'' \<and>
        ''upload_documents'' \<notin> ROLE_PERMISSIONS GUEST \<and> ''chat'' \<notin> ROLE_PERMISSIONS GUEST)"
  by (simp add: get_user_role_def UserRole_of_def get_user_permissions_def has_permission_def
      ROLE_PERMISSIONS_def Let_def)

theorem role_resolution_default_witness:
  "u_role \<lparr>u_id = 1, u_role = None\<rparr> = None \<and>
   get_user_role \<lparr>u_id = 1, u_role = None\<rparr> = GUEST \<and>
   u_role \<lparr>u_id = 2, u_role = Some ''Manager''\<rparr> = Some ''Manager'' \<and>
   lower ''Manager'' \<notin> {''super_admin'', ''admin'', ''user'', ''guest''} \<and>
   get_user_role \<lparr>u_id = 2, u_role = Some ''Manager''\<rparr> = USER \<and>
   has_permission \<lparr>u_id = 2, u_role = Some ''Manager''\<rparr> ''upload_documents'' \<and>
   has_permission \<lparr>u_id = 2, u_role = Some ''Manager''\<rparr> ''chat''"
proof -
  have h1: "u_role \<lparr>u_id = 1, u_role = None\<rparr> = None" by simp
  have h2: "u_role \<lparr>u_id = 2, u_role = Some ''Manager''\<rparr> = Some ''Manager'' \<and>
      lower ''Manager'' \<notin> {''super_admin'', ''admin'', ''user'', ''guest''}"
    by (simp add: lower_def lower_char_def)
  from h1 role_resolution_default[of "\<lparr>u_id = 1, u_role = None\<rparr>"]
  have c1: "get_user_role \<lparr>u_id = 1, u_role = None\<rparr> = GUEST" by blast
  from h2 role_resolution_default[of "\<lparr>u_id = 2, u_role = Some ''Manager''\<rparr>"]
  have c2: "get_user_role \<lparr>u_id = 2, u_role = Some ''Manager''\<rparr> = USER \<and>
      has_permission \<lparr>u_id = 2, u_role = Some ''Manager''\<rparr> ''upload_documents'' \<and>
      has_permission \<lparr>u_id = 2, u_role = Some ''Manager''\<rparr> ''chat''" by blast
  from h1 h2 c1 c2 show ?thesis by blast
qed

subsection \<open>Accessible projects\<close>

text \<open>
  Claim C9, as stated, fails: the accessible project ids need not contain every project
  the principal created. A standard user who created project 1, now inactive, gets the
  empty list.
\<close>

theorem accessible_created_counterexample:
  "\<not> created_project_ids \<lparr>u_id = 7, u_role = Some ''user''\<rparr>
        \<lparr>projects = [\<lparr>p_id = 1, p_is_active = False, p_is_private = True, p_created_by_id = 7\<rparr>],
         user_projects = [], documents = []\<rparr>
      \<subseteq> set (get_accessible_project_ids \<lparr>u_id = 7, u_role = Some ''user''\<rparr>
        \<lparr>projects = [\<lparr>p_id = 1, p_is_active = False, p_is_private = True, p_created_by_id = 7\<rparr>],
         user_projects = [], documents = []\<rparr>)"
  by (simp add: created_project_ids_def get_accessible_project_ids_def is_super_admin_def
      is_admin_def get_user_role_def lower_def lower_char_def UserRole_of_def
      projects_of_user_def user_in_project_def)

text \<open>
  Claim C9, amended. For every principal of every role, the accessible project ids
  contain every active project the principal created and every non-private active
  project.
\<close>

theorem accessible_project_ids_superset:
  "active_created_project_ids usr d \<subseteq> set (get_accessible_project_ids usr d) \<and>
   public_active_project_ids d \<subseteq> set (get_accessible_project_ids usr d)"
  by (auto simp: active_created_project_ids_def public_active_project_ids_def
      get_accessible_project_ids_def Let_def)

theorem accessible_project_ids_superset_witness:
  "1 \<in> active_created_project_ids \<lparr>u_id = 7, u_role = Some ''guest''\<rparr>
        \<lparr>projects = [\<lparr>p_id = 1, p_is_active = True, p_is_private = True, p_created_by_id = 7\<rparr>,
                     \<lparr>p_id = 2, p_is_active = True, p_is_private = False, p_created_by_id = 8\<rparr>],
         user_projects = [], documents = []\<rparr> \<and>
   2 \<in> public_active_project_ids
        \<lparr>projects = [\<lparr>p_id = 1, p_is_active = True, p_is_private = True, p_created_by_id = 7\<rparr>,
                     \<lparr>p_id = 2, p_is_active = True, p_is_private = False, p_created_by_id = 8\<rparr>],
         user_projects = [], documents = []\<rparr> \<and>
   {1, 2} \<subseteq> set (get_accessible_project_ids \<lparr>u_id = 7, u_role = Some ''guest''\<rparr>
        \<lparr>projects = [\<lparr>p_id = 1, p_is_active = True, p_is_private = True, p_created_by_id = 7\<rparr>,
                     \<lparr>p_id = 2, p_is_active = True, p_is_private = False, p_created_by_id = 8\<rparr>],
         user_projects = [], documents = []\<rparr>)"
proof -
  let ?u = "\<lparr>u_id = 7, u_role = Some ''guest''\<rparr>"
  let ?d = "\<lparr>projects = [\<lparr>p_id = 1, p_is_active = True, p_is_private = True, p_created_by_id = 7\<rparr>,
                     \<lparr>p_id = 2, p_is_active = True, p_is_private = False, p_created_by_id = 8\<rparr>],
         user_projects = [], documents = []\<rparr>"
  have m1: "1 \<in> active_created_project_ids ?u ?d"
    by (simp add: active_created_project_ids_def)
  have m2: "2 \<in> public_active_project_ids ?d"
    by (simp add: public_active_project_ids_def)
  from m1 m2 accessible_project_ids_superset[of ?u ?d]
  have "{1, 2} \<subseteq> set (get_accessible_project_ids ?u ?d)" by blast
  with m1 m2 show ?thesis by blast
qed

subsection \<open>Explicit document ids\<close>

lemma explicit_ids_filter:
  "ids \<noteq> [] \<Longrightarrow>
   search_similar_filter project_id user_id rbac_context (Some ids) =
     Use (Some (Filter [FieldCondition ''document_id'' (MatchAny (map PInt ids))] [] None))"
  by (simp add: search_similar_filter_def)

lemma admits_document_id_filter:
  "admits_opt (Some (Filter [FieldCondition ''document_id'' (MatchAny (map PInt ids))] [] None)) pl
   \<longleftrightarrow> pl_document_id pl \<in> set ids"
  by (auto simp: admits_opt_def match_value_def payload_get_def)

lemma fresh_int: "\<exists>p::int. p \<notin> set xs"
  using ex_new_if_finite[of "set xs"] infinite_UNIV_int by auto

lemma foreign_personal_chunk_exists:
  assumes "ids \<noteq> []"
  shows "\<exists>pl :: payload. pl_access_scope pl = ''personal'' \<and> pl_user_id pl \<noteq> None \<and>
          pl_user_id pl \<noteq> user_id \<and>
          (\<exists>p. pl_project_id pl = Some p \<and> p \<notin> set accessible) \<and>
          pl_document_id pl \<in> set ids"
proof -
  obtain p :: int where p: "p \<notin> set accessible" using fresh_int by blast
  define u :: int where "u = (case user_id of None \<Rightarrow> 0 | Some a \<Rightarrow> a + 1)"
  have u: "Some u \<noteq> user_id" by (cases user_id) (simp_all add: u_def)
  let ?pl = "\<lparr>pl_document_id = hd ids, pl_chunk_index = 0, pl_content = [],
      pl_page_number = None, pl_section_title = None, pl_filename = None,
      pl_project_id = Some p, pl_user_id = Some u, pl_access_scope = ''personal''\<rparr>"
  from assms p u have "pl_access_scope ?pl = ''personal'' \<and> pl_user_id ?pl \<noteq> None \<and>
          pl_user_id ?pl \<noteq> user_id \<and>
          (\<exists>p. pl_project_id ?pl = Some p \<and> p \<notin> set accessible) \<and>
          pl_document_id ?pl \<in> set ids"
    by simp
  then show ?thesis by blast
qed

text \<open>
  Claim C2. For every caller, requested project and authorization context, a non-empty
  explicit list of document ids makes the compiled filter exactly
  \<^verbatim>\<open>document_id \<in> ids\<close>: no project, scope or ownership condition. The filter admits
  precisely the chunks of the listed documents, so some \<^verbatim>\<open>personal\<close> chunk uploaded by
  another user, in a project outside the caller's accessible projects, is admitted.
\<close>

theorem explicit_document_ids_override:
  "ids \<noteq> [] \<longrightarrow>
     search_similar_filter project_id user_id rbac_context (Some ids) =
       Use (Some (Filter [FieldCondition ''document_id'' (MatchAny (map PInt ids))] [] None)) \<and>
     (\<forall>pl. admits_opt
             (Some (Filter [FieldCondition ''document_id'' (MatchAny (map PInt ids))] [] None)) pl
           \<longleftrightarrow> pl_document_id pl \<in> set ids) \<and>
     (\<exists>pl :: payload. pl_access_scope pl = ''personal'' \<and> pl_user_id pl \<noteq> None \<and>
           pl_user_id pl \<noteq> user_id \<and>
           (\<exists>p. pl_project_id pl = Some p \<and>
                p \<notin> set (accessible_of rbac_context)) \<and>
           admits_opt
             (Some (Filter [FieldCondition ''document_id'' (MatchAny (map PInt ids))] [] None)) pl)"
proof
  assume ne: "ids \<noteq> []"
  from foreign_personal_chunk_exists[OF ne]
  obtain pl :: payload where pl: "pl_access_scope pl = ''personal'' \<and> pl_user_id pl \<noteq> None \<and>
          pl_user_id pl \<noteq> user_id \<and>
          (\<exists>p. pl_project_id pl = Some p \<and>
              p \<notin> set (accessible_of rbac_context)) \<and>
          pl_document_id pl \<in> set ids"
    by blast
  then have "admits_opt
      (Some (Filter [FieldCondition ''document_id'' (MatchAny (map PInt ids))] [] None)) pl"
    using admits_document_id_filter by blast
  with pl have ex: "\<exists>pl :: payload. pl_access_scope pl = ''personal'' \<and> pl_user_id pl \<noteq> None \<and>
           pl_user_id pl \<noteq> user_id \<and>
           (\<exists>p. pl_project_id pl = Some p \<and>
                p \<notin> set (accessible_of rbac_context)) \<and>
           admits_opt
             (Some (Filter [FieldCondition ''document_id'' (MatchAny (map PInt ids))] [] None)) pl"
    by blast
  from explicit_ids_filter[OF ne] admits_document_id_filter ex
  show "search_similar_filter project_id user_id rbac_context (Some ids) =
       Use (Some (Filter [FieldCondition ''document_id'' (MatchAny (map PInt ids))] [] None)) \<and>
     (\<forall>pl. admits_opt
             (Some (Filter [FieldCondition ''document_id'' (MatchAny (map PInt ids))] [] None)) pl
           \<longleftrightarrow> pl_document_id pl \<in> set ids) \<and>
     (\<exists>pl :: payload. pl_access_scope pl = ''personal'' \<and> pl_user_id pl \<noteq> None \<and>
           pl_user_id pl \<noteq> user_id \<and>
           (\<exists>p. pl_project_id pl = Some p \<and>
                p \<notin> set (accessible_of rbac_context)) \<and>
           admits_opt
             (Some (Filter [FieldCondition ''document_id'' (MatchAny (map PInt ids))] [] None)) pl)"
    by blast
qed

theorem explicit_document_ids_override_witness:
  "[10] \<noteq> ([] :: int list) \<and>
   search_similar_filter (Some 3) (Some 2)
      (Some \<lparr>rc_is_super_admin = False, rc_is_admin = False, rc_accessible_project_ids = [1],
             rc_super_admin_user_id = None\<rparr>) (Some [10]) =
     Use (Some (Filter [FieldCondition ''document_id'' (MatchAny [PInt 10])] [] None)) \<and>
   admits_opt (Some (Filter [FieldCondition ''document_id'' (MatchAny [PInt 10])] [] None))
      \<lparr>pl_document_id = 10, pl_chunk_index = 0, pl_content = ''diary'',
       pl_page_number = None, pl_section_title = None, pl_filename = None,
       pl_project_id = Some 3, pl_user_id = Some 7, pl_access_scope = ''personal''\<rparr>"
proof -
  have ne: "[10] \<noteq> ([] :: int list)" by simp
  let ?pl = "\<lparr>pl_document_id = 10, pl_chunk_index = 0, pl_content = ''diary'',
       pl_page_number = None, pl_section_title = None, pl_filename = None,
       pl_project_id = Some 3, pl_user_id = Some 7, pl_access_scope = ''personal''\<rparr>"
  let ?rc = "Some \<lparr>rc_is_super_admin = False, rc_is_admin = False,
       rc_accessible_project_ids = [1], rc_super_admin_user_id = None\<rparr>"
  have inl: "pl_document_id ?pl \<in> set [10]" by simp
  from ne explicit_document_ids_override[of "[10]" "Some 3" "Some 2" ?rc]
  have "search_similar_filter (Some 3) (Some 2) ?rc (Some [10]) =
       Use (Some (Filter [FieldCondition ''document_id'' (MatchAny (map PInt [10]))] [] None)) \<and>
     (\<forall>pl. admits_opt
             (Some (Filter [FieldCondition ''document_id'' (MatchAny (map PInt [10]))] [] None)) pl
           \<longleftrightarrow> pl_document_id pl \<in> set [10])"
    by blast
  with inl ne show ?thesis by simp
qed

subsection \<open>Requests for a project outside the accessible set\<close>

lemma standard_filter_denied:
  "standard_tier rbac_context \<and> document_ids \<in> {None, Some []} \<and>
     p \<notin> set (accessible_of rbac_context)
   \<longrightarrow> search_similar_filter (Some p) user_id rbac_context document_ids = Denied"
  by (auto simp: standard_tier_def accessible_of_def search_similar_filter_def Let_def
      split: option.splits)

lemma search_similar_denied:
  "search_similar_filter project_id user_id rbac_context document_ids = Denied \<and>
     \<not> vs_mock_mode vs \<and> vs_embedding_failure vs = None
   \<longrightarrow> search_similar cfg vs query n_results project_id user_id min_score rbac_context
         document_ids =
       \<lparr>sr_query = query, sr_results = [], sr_total_results = 0,
        sr_error = Some ''Access denied to this project'', sr_rbac_applied = None\<rparr>"
  by (simp add: search_similar_def)

lemma search_similar_success:
  "\<not> vs_mock_mode vs \<and> vs_embedding_failure vs = None \<and>
     search_similar_filter project_id user_id rbac_context document_ids = Use f \<and>
     vs_query_points vs f n_results (case min_score of None \<Rightarrow> MIN_SIMILARITY_SCORE cfg
                                     | Some m \<Rightarrow> m) = Inr hits
   \<longrightarrow> search_similar cfg vs query n_results project_id user_id min_score rbac_context
         document_ids =
       \<lparr>sr_query = query, sr_results = map format_hit hits, sr_total_results = length hits,
        sr_error = None, sr_rbac_applied = Some True\<rparr>"
  by (simp add: search_similar_def Let_def)

text \<open>
  The mock store has no such refusal: whatever the requested project, its result carries
  no error.
\<close>

lemma mock_search_never_denies:
  "vs_mock_mode vs \<Longrightarrow>
   sr_error (search_similar cfg vs query n_results project_id user_id min_score rbac_context
      document_ids) = None \<and>
   sr_rbac_applied (search_similar cfg vs query n_results project_id user_id min_score
      rbac_context document_ids) = Some True"
  by (simp add: search_similar_def mock_search_def Let_def)

lemma document_filter_denied:
  "get_user_role usr \<in> {USER, GUEST} \<and> p \<noteq> 0 \<and> p \<notin> set (get_accessible_project_ids usr d)
   \<longrightarrow> get_document_filter_for_user usr d (Some p) =
         Inl (HTTPException 403 ''No access to this project'')"
  by (auto simp: get_document_filter_for_user_def is_super_admin_def is_admin_def truthy_id_def
      Let_def)

text \<open>
  Claim C3, as stated, fails. A standard caller whose accessible projects are \<open>[1]\<close>
  requests project 3 and is not refused in four situations. With an explicit document-id
  list the override branch answers, here with a \<^verbatim>\<open>personal\<close> chunk of another user in
  project 3. In mock mode the in-memory search answers, here with an
  \<^verbatim>\<open>organization\<close> chunk of project 3. When the embedding of the query fails, the
  error result carries the embedding's message. And \<^verbatim>\<open>get_document_filter_for_user\<close>
  treats the project id 0, which fails the truthiness test, as no project at all and
  returns a filter.
\<close>

theorem project_access_denied_counterexample:
  "3 \<notin> set (accessible_of (Some \<lparr>rc_is_super_admin = False, rc_is_admin = False,
       rc_accessible_project_ids = [1], rc_super_admin_user_id = None\<rparr>)) \<and>
   sr_error (search_similar default_settings
     \<lparr>vs_mock_mode = False, vs_mock_storage = [], vs_embedding_failure = None,
      vs_validation_message = ''validation error for Filter'',
      vs_query_points = (\<lambda>f n m. Inr (filter (\<lambda>(pl, score). admits_opt f pl \<and> m \<le> score)
         [(\<lparr>pl_document_id = 10, pl_chunk_index = 0, pl_content = ''diary'',
            pl_page_number = None, pl_section_title = None, pl_filename = None,
            pl_project_id = Some 3, pl_user_id = Some 7, pl_access_scope = ''personal''\<rparr>,
           9 / 10)]))\<rparr>
     ''leave policy'' 5 (Some 3) (Some 2) None
     (Some \<lparr>rc_is_super_admin = False, rc_is_admin = False,
        rc_accessible_project_ids = [1], rc_super_admin_user_id = None\<rparr>) (Some [10])) = None \<and>
   sr_total_results (search_similar default_settings
     \<lparr>vs_mock_mode = False, vs_mock_storage = [], vs_embedding_failure = None,
      vs_validation_message = ''validation error for Filter'',
      vs_query_points = (\<lambda>f n m. Inr (filter (\<lambda>(pl, score). admits_opt f pl \<and> m \<le> score)
         [(\<lparr>pl_document_id = 10, pl_chunk_index = 0, pl_content = ''diary'',
            pl_page_number = None, pl_section_title = None, pl_filename = None,
            pl_project_id = Some 3, pl_user_id = Some 7, pl_access_scope = ''personal''\<rparr>,
           9 / 10)]))\<rparr>
     ''leave policy'' 5 (Some 3) (Some 2) None
     (Some \<lparr>rc_is_super_admin = False, rc_is_admin = False,
        rc_accessible_project_ids = [1], rc_super_admin_user_id = None\<rparr>) (Some [10])) = 1 \<and>
   sr_error (search_similar default_settings
     \<lparr>vs_mock_mode = True,
      vs_mock_storage =
         [(\<lparr>pl_document_id = 20, pl_chunk_index = 0, pl_content = ''holidays'',
            pl_page_number = None, pl_section_title = None, pl_filename = None,
            pl_project_id = Some 3, pl_user_id = Some 7, pl_access_scope = ''organization''\<rparr>,
           9 / 10)],
      vs_embedding_failure = None,
      vs_validation_message = ''validation error for Filter'',
      vs_query_points = (\<lambda>f n m. Inr [])\<rparr>
     ''leave policy'' 5 (Some 3) (Some 2) None
     (Some \<lparr>rc_is_super_admin = False, rc_is_admin = False,
        rc_accessible_project_ids = [1], rc_super_admin_user_id = None\<rparr>) None) = None \<and>
   sr_total_results (search_similar default_settings
     \<lparr>vs_mock_mode = True,
      vs_mock_storage =
         [(\<lparr>pl_document_id = 20, pl_chunk_index = 0, pl_content = ''holidays'',
            pl_page_number = None, pl_section_title = None, pl_filename = None,
            pl_project_id = Some 3, pl_user_id = Some 7, pl_access_scope = ''organization''\<rparr>,
           9 / 10)],
      vs_embedding_failure = None,
      vs_validation_message = ''validation error for Filter'',
      vs_query_points = (\<lambda>f n m. Inr [])\<rparr>
     ''leave policy'' 5 (Some 3) (Some 2) None
     (Some \<lparr>rc_is_super_admin = False, rc_is_admin = False,
        rc_accessible_project_ids = [1], rc_super_admin_user_id = None\<rparr>) None) = 1 \<and>
   sr_error (search_similar default_settings
     \<lparr>vs_mock_mode = False, vs_mock_storage = [],
      vs_embedding_failure = Some ''embedding model failed'',
      vs_validation_message = ''validation error for Filter'',
      vs_query_points = (\<lambda>f n m. Inr [])\<rparr>
     ''leave policy'' 5 (Some 3) (Some 2) None
     (Some \<lparr>rc_is_super_admin = False, rc_is_admin = False,
        rc_accessible_project_ids = [1], rc_super_admin_user_id = None\<rparr>) None)
     = Some ''embedding model failed'' \<and>
   get_user_role \<lparr>u_id = 2, u_role = Some ''user''\<rparr> = USER \<and>
   0 \<notin> set (get_accessible_project_ids \<lparr>u_id = 2, u_role = Some ''user''\<rparr>
          \<lparr>projects = [\<lparr>p_id = 1, p_is_active = True, p_is_private = False, p_created_by_id = 9\<rparr>],
           user_projects = [], documents = []\<rparr>) \<and>
   get_document_filter_for_user \<lparr>u_id = 2, u_role = Some ''user''\<rparr>
          \<lparr>projects = [\<lparr>p_id = 1, p_is_active = True, p_is_private = False, p_created_by_id = 9\<rparr>],
           user_projects = [], documents = []\<rparr> (Some 0) =
     Inr \<lparr>f_project_id = None, f_project_ids = Some [1], f_exclude_personal_not_owned = None,
          f_user_id = Some 2, f_access_scope_filter = Some True\<rparr>"
proof -
  have role: "get_user_role \<lparr>u_id = 2, u_role = Some ''user''\<rparr> = USER"
    by (simp add: get_user_role_def lower_def lower_char_def UserRole_of_def)
  have acc: "get_accessible_project_ids \<lparr>u_id = 2, u_role = Some ''user''\<rparr>
          \<lparr>projects = [\<lparr>p_id = 1, p_is_active = True, p_is_private = False, p_created_by_id = 9\<rparr>],
           user_projects = [], documents = []\<rparr> = [1]"
    by (simp add: role get_accessible_project_ids_def is_super_admin_def is_admin_def
        projects_of_user_def user_in_project_def)
  show ?thesis
    by (simp add: role acc accessible_of_def search_similar_def search_similar_filter_def
        mock_search_def mock_visible_def admits_opt_def match_value_def payload_get_def
        default_settings_def get_document_filter_for_user_def is_super_admin_def is_admin_def
        truthy_id_def empty_filters_def)
qed

text \<open>
  Claim C3, amended. A standard or guest caller who requests a specific project outside
  the accessible project ids, with no explicit document-id list, is refused: the
  filter-building block of \<^verbatim>\<open>search_similar\<close> ends with the access-denied outcome and,
  on the vector-store path (not the mock store, embedding computed),
  \<^verbatim>\<open>search_similar\<close> returns the result carrying the error
  \<^verbatim>\<open>Access denied to this project\<close>, which differs from the result of every search that is
  answered, by the mock store or by the vector store, the one with zero matches included
  (no \<^verbatim>\<open>error\<close>, \<^verbatim>\<open>rbac_applied\<close> set). \<^verbatim>\<open>get_document_filter_for_user\<close> raises
  the 403 exception for such a request when the project id is not 0.
\<close>

theorem project_access_denied:
  "(standard_tier rbac_context \<and> document_ids \<in> {None, Some []} \<and>
      p \<notin> set (accessible_of rbac_context)
    \<longrightarrow> search_similar_filter (Some p) user_id rbac_context document_ids = Denied \<and>
        (\<not> vs_mock_mode vs \<and> vs_embedding_failure vs = None \<longrightarrow>
           search_similar cfg vs query n_results (Some p) user_id min_score rbac_context
             document_ids =
             \<lparr>sr_query = query, sr_results = [], sr_total_results = 0,
              sr_error = Some ''Access denied to this project'', sr_rbac_applied = None\<rparr> \<and>
           (\<forall>(vs' :: vector_service) project_id' rbac_context' document_ids' f hits.
              (vs_mock_mode vs' \<or>
               (vs_embedding_failure vs' = None \<and>
                search_similar_filter project_id' user_id rbac_context' document_ids' = Use f \<and>
                vs_query_points vs' f n_results
                  (case min_score of None \<Rightarrow> MIN_SIMILARITY_SCORE cfg | Some m \<Rightarrow> m) = Inr hits))
              \<longrightarrow> search_similar cfg vs' query n_results project_id' user_id min_score
                    rbac_context' document_ids' \<noteq>
                  search_similar cfg vs query n_results (Some p) user_id min_score rbac_context
                    document_ids))) \<and>
   (get_user_role usr \<in> {USER, GUEST} \<and> p \<noteq> 0 \<and> p \<notin> set (get_accessible_project_ids usr d)
    \<longrightarrow> get_document_filter_for_user usr d (Some p) =
          Inl (HTTPException 403 ''No access to this project''))"
proof (rule conjI[OF _ document_filter_denied], rule impI)
  assume a: "standard_tier rbac_context \<and> document_ids \<in> {None, Some []} \<and>
      p \<notin> set (accessible_of rbac_context)"
  with standard_filter_denied
  have den: "search_similar_filter (Some p) user_id rbac_context document_ids = Denied"
    by blast
  have res: "search_similar cfg vs query n_results (Some p) user_id min_score rbac_context
             document_ids =
             \<lparr>sr_query = query, sr_results = [], sr_total_results = 0,
              sr_error = Some ''Access denied to this project'', sr_rbac_applied = None\<rparr> \<and>
           (\<forall>(vs' :: vector_service) project_id' rbac_context' document_ids' f hits.
              (vs_mock_mode vs' \<or>
               (vs_embedding_failure vs' = None \<and>
                search_similar_filter project_id' user_id rbac_context' document_ids' = Use f \<and>
                vs_query_points vs' f n_results
                  (case min_score of None \<Rightarrow> MIN_SIMILARITY_SCORE cfg | Some m \<Rightarrow> m) = Inr hits))
              \<longrightarrow> search_similar cfg vs' query n_results project_id' user_id min_score
                    rbac_context' document_ids' \<noteq>
                  search_similar cfg vs query n_results (Some p) user_id min_score rbac_context
                    document_ids)"
    if real: "\<not> vs_mock_mode vs \<and> vs_embedding_failure vs = None"
  proof -
    from den real search_similar_denied
    have eq: "search_similar cfg vs query n_results (Some p) user_id min_score rbac_context
             document_ids =
             \<lparr>sr_query = query, sr_results = [], sr_total_results = 0,
              sr_error = Some ''Access denied to this project'', sr_rbac_applied = None\<rparr>"
      by blast
    show ?thesis
    proof (rule conjI[OF eq], intro allI impI)
      fix vs' :: vector_service and project_id' rbac_context' document_ids' f hits
      assume ans: "vs_mock_mode vs' \<or>
               (vs_embedding_failure vs' = None \<and>
                search_similar_filter project_id' user_id rbac_context' document_ids' = Use f \<and>
                vs_query_points vs' f n_results
                  (case min_score of None \<Rightarrow> MIN_SIMILARITY_SCORE cfg | Some m \<Rightarrow> m) = Inr hits)"
      have "sr_error (search_similar cfg vs' query n_results project_id' user_id min_score
                    rbac_context' document_ids') = None"
      proof (cases "vs_mock_mode vs'")
        case True
        then show ?thesis using mock_search_never_denies by blast
      next
        case False
        with ans search_similar_success
        have "search_similar cfg vs' query n_results project_id' user_id min_score
                    rbac_context' document_ids' =
           \<lparr>sr_query = query, sr_results = map format_hit hits, sr_total_results = length hits,
            sr_error = None, sr_rbac_applied = Some True\<rparr>"
          by blast
        then show ?thesis by simp
      qed
      moreover have "sr_error (search_similar cfg vs query n_results (Some p) user_id min_score
          rbac_context document_ids) = Some ''Access denied to this project''"
        by (simp add: eq)
      ultimately show "search_similar cfg vs' query n_results project_id' user_id min_score
                    rbac_context' document_ids' \<noteq>
                  search_similar cfg vs query n_results (Some p) user_id min_score rbac_context
                    document_ids"
        by auto
    qed
  qed
  from den res show "search_similar_filter (Some p) user_id rbac_context document_ids = Denied \<and>
        (\<not> vs_mock_mode vs \<and> vs_embedding_failure vs = None \<longrightarrow>
           search_similar cfg vs query n_results (Some p) user_id min_score rbac_context
             document_ids =
             \<lparr>sr_query = query, sr_results = [], sr_total_results = 0,
              sr_error = Some ''Access denied to this project'', sr_rbac_applied = None\<rparr> \<and>
           (\<forall>(vs' :: vector_service) project_id' rbac_context' document_ids' f hits.
              (vs_mock_mode vs' \<or>
               (vs_embedding_failure vs' = None \<and>
                search_similar_filter project_id' user_id rbac_context' document_ids' = Use f \<and>
                vs_query_points vs' f n_results
                  (case min_score of None \<Rightarrow> MIN_SIMILARITY_SCORE cfg | Some m \<Rightarrow> m) = Inr hits))
              \<longrightarrow> search_similar cfg vs' query n_results project_id' user_id min_score
                    rbac_context' document_ids' \<noteq>
                  search_similar cfg vs query n_results (Some p) user_id min_score rbac_context
                    document_ids))"
    by blast
qed

theorem project_access_denied_witness:
  "(standard_tier (Some \<lparr>rc_is_super_admin = False, rc_is_admin = False,
        rc_accessible_project_ids = [1], rc_super_admin_user_id = None\<rparr>) \<and>
    3 \<notin> set (accessible_of (Some \<lparr>rc_is_super_admin = False, rc_is_admin = False,
        rc_accessible_project_ids = [1], rc_super_admin_user_id = None\<rparr>)) \<and>
    search_similar default_settings
        \<lparr>vs_mock_mode = False, vs_mock_storage = [], vs_embedding_failure = None,
         vs_validation_message = ''validation error for Filter'',
         vs_query_points = (\<lambda>f n m. Inr [])\<rparr> ''leave policy'' 5 (Some 3) (Some 2) None
        (Some \<lparr>rc_is_super_admin = False, rc_is_admin = False,
           rc_accessible_project_ids = [1], rc_super_admin_user_id = None\<rparr>) None =
      \<lparr>sr_query = ''leave policy'', sr_results = [], sr_total_results = 0,
       sr_error = Some ''Access denied to this project'', sr_rbac_applied = None\<rparr> \<and>
    search_similar default_settings
        \<lparr>vs_mock_mode = False, vs_mock_storage = [], vs_embedding_failure = None,
         vs_validation_message = ''validation error for Filter'',
         vs_query_points = (\<lambda>f n m. Inr [])\<rparr> ''leave policy'' 5 (Some 1) (Some 2) None
        (Some \<lparr>rc_is_super_admin = False, rc_is_admin = False,
           rc_accessible_project_ids = [1], rc_super_admin_user_id = None\<rparr>) (Some [10]) =
      \<lparr>sr_query = ''leave policy'', sr_results = [], sr_total_results = 0,
       sr_error = None, sr_rbac_applied = Some True\<rparr> \<and>
    search_similar default_settings
        \<lparr>vs_mock_mode = False, vs_mock_storage = [], vs_embedding_failure = None,
         vs_validation_message = ''validation error for Filter'',
         vs_query_points = (\<lambda>f n m. Inr [])\<rparr> ''leave policy'' 5 (Some 1) (Some 2) None
        (Some \<lparr>rc_is_super_admin = False, rc_is_admin = False,
           rc_accessible_project_ids = [1], rc_super_admin_user_id = None\<rparr>) (Some [10]) \<noteq>
    search_similar default_settings
        \<lparr>vs_mock_mode = False, vs_mock_storage = [], vs_embedding_failure = None,
         vs_validation_message = ''validation error for Filter'',
         vs_query_points = (\<lambda>f n m. Inr [])\<rparr> ''leave policy'' 5 (Some 3) (Some 2) None
        (Some \<lparr>rc_is_super_admin = False, rc_is_admin = False,
           rc_accessible_project_ids = [1], rc_super_admin_user_id = None\<rparr>) None) \<and>
   (get_user_role \<lparr>u_id = 2, u_role = Some ''user''\<rparr> \<in> {USER, GUEST} \<and>
    3 \<notin> set (get_accessible_project_ids \<lparr>u_id = 2, u_role = Some ''user''\<rparr>
           \<lparr>projects = [\<lparr>p_id = 1, p_is_active = True, p_is_private = False, p_created_by_id = 9\<rparr>,
                        \<lparr>p_id = 3, p_is_active = True, p_is_private = True, p_created_by_id = 9\<rparr>],
            user_projects = [], documents = []\<rparr>) \<and>
    get_document_filter_for_user \<lparr>u_id = 2, u_role = Some ''user''\<rparr>
           \<lparr>projects = [\<lparr>p_id = 1, p_is_active = True, p_is_private = False, p_created_by_id = 9\<rparr>,
                        \<lparr>p_id = 3, p_is_active = True, p_is_private = True, p_created_by_id = 9\<rparr>],
            user_projects = [], documents = []\<rparr> (Some 3) =
      Inl (HTTPException 403 ''No access to this project''))"
proof -
  let ?rc = "Some \<lparr>rc_is_super_admin = False, rc_is_admin = False,
        rc_accessible_project_ids = [1], rc_super_admin_user_id = None\<rparr>"
  let ?vs = "\<lparr>vs_mock_mode = False, vs_mock_storage = [], vs_embedding_failure = None,
         vs_validation_message = ''validation error for Filter'',
         vs_query_points = (\<lambda>f n m. Inr [])\<rparr>"
  let ?u = "\<lparr>u_id = 2, u_role = Some ''user''\<rparr>"
  let ?d = "\<lparr>projects = [\<lparr>p_id = 1, p_is_active = True, p_is_private = False, p_created_by_id = 9\<rparr>,
                        \<lparr>p_id = 3, p_is_active = True, p_is_private = True, p_created_by_id = 9\<rparr>],
            user_projects = [], documents = []\<rparr>"
  let ?f = "Some (Filter [FieldCondition ''document_id'' (MatchAny [PInt 10])] [] None)"
  have role: "get_user_role ?u = USER"
    by (simp add: get_user_role_def lower_def lower_char_def UserRole_of_def)
  have h1: "standard_tier ?rc \<and> None \<in> {None, Some []} \<and> 3 \<notin> set (accessible_of ?rc)"
    by (simp add: standard_tier_def accessible_of_def)
  have h2: "\<not> vs_mock_mode ?vs \<and> vs_embedding_failure ?vs = None"
    by simp
  have h3: "vs_mock_mode ?vs \<or>
      (vs_embedding_failure ?vs = None \<and>
       search_similar_filter (Some 1) (Some 2) ?rc (Some [10]) = Use ?f \<and>
       vs_query_points ?vs ?f 5
         (case None of None \<Rightarrow> MIN_SIMILARITY_SCORE default_settings | Some m \<Rightarrow> m) = Inr [])"
    by (simp add: search_similar_filter_def)
  have zero: "search_similar default_settings ?vs ''leave policy'' 5 (Some 1) (Some 2) None ?rc
      (Some [10]) =
      \<lparr>sr_query = ''leave policy'', sr_results = [], sr_total_results = 0,
       sr_error = None, sr_rbac_applied = Some True\<rparr>"
    by (simp add: search_similar_def search_similar_filter_def)
  have h4: "get_user_role ?u \<in> {USER, GUEST} \<and> (3::int) \<noteq> 0 \<and>
      3 \<notin> set (get_accessible_project_ids ?u ?d)"
    by (simp add: role get_accessible_project_ids_def is_super_admin_def is_admin_def
        projects_of_user_def user_in_project_def)
  note inst = project_access_denied[where rbac_context = ?rc and document_ids = None and p = 3
      and user_id = "Some 2" and vs = ?vs and cfg = default_settings and query = "''leave policy''"
      and n_results = 5 and min_score = None and usr = ?u and d = ?d]
  from inst h1 h2
  have c1: "search_similar default_settings ?vs ''leave policy'' 5 (Some 3) (Some 2) None ?rc None =
      \<lparr>sr_query = ''leave policy'', sr_results = [], sr_total_results = 0,
       sr_error = Some ''Access denied to this project'', sr_rbac_applied = None\<rparr>"
    by blast
  from inst h1 h2
  have "\<forall>(vs' :: vector_service) project_id' rbac_context' document_ids' f hits.
              (vs_mock_mode vs' \<or>
               (vs_embedding_failure vs' = None \<and>
                search_similar_filter project_id' (Some 2) rbac_context' document_ids' = Use f \<and>
                vs_query_points vs' f 5
                  (case None of None \<Rightarrow> MIN_SIMILARITY_SCORE default_settings | Some m \<Rightarrow> m)
                  = Inr hits))
              \<longrightarrow> search_similar default_settings vs' ''leave policy'' 5 project_id' (Some 2) None
                    rbac_context' document_ids' \<noteq>
                  search_similar default_settings ?vs ''leave policy'' 5 (Some 3) (Some 2) None ?rc None"
    by blast
  with h3
  have c2: "search_similar default_settings ?vs ''leave policy'' 5 (Some 1) (Some 2) None ?rc
        (Some [10]) \<noteq>
      search_similar default_settings ?vs ''leave policy'' 5 (Some 3) (Some 2) None ?rc None"
    by blast
  from inst h4
  have c3: "get_document_filter_for_user ?u ?d (Some 3) =
      Inl (HTTPException 403 ''No access to this project'')"
    by blast
  from h1 h4 c1 zero c2 c3 show ?thesis by blast
qed

subsection \<open>Rate limiter\<close>

lemma check_rate_limit_snd:
  "snd (check_rate_limit cfg now ts) = filter (\<lambda>t. t > now - seconds 60) ts \<or>
   snd (check_rate_limit cfg now ts) = filter (\<lambda>t. t > now - seconds 60) ts @ [now]"
  by (simp add: check_rate_limit_def Let_def split: list.splits)

lemma check_rate_limit_subset:
  "set (snd (check_rate_limit cfg now ts)) \<subseteq> insert now (set ts)"
  using check_rate_limit_snd[of cfg now ts] by auto

lemma run_rate_limit_subset:
  "set (run_rate_limit cfg earlier ts) \<subseteq> set ts \<union> set earlier"
proof (induction earlier arbitrary: ts)
  case Nil
  then show ?case by simp
next
  case (Cons now later)
  have "set (run_rate_limit cfg later (snd (check_rate_limit cfg now ts)))
        \<subseteq> set (snd (check_rate_limit cfg now ts)) \<union> set later"
    by (rule Cons.IH)
  with check_rate_limit_subset[of cfg now ts] show ?case by auto
qed

lemma check_rate_limit_rejects:
  assumes past: "\<forall>t \<in> set ts. t \<le> now"
    and full: "RATE_LIMIT_REQUESTS_PER_MINUTE cfg \<le> int (length (filter (\<lambda>t. t > now - seconds 60) ts))"
    and pos: "0 < RATE_LIMIT_REQUESTS_PER_MINUTE cfg"
  shows "\<exists>w. check_rate_limit cfg now ts =
            (Inl (RateLimitError (TryAgainIn w)), filter (\<lambda>t. t > now - seconds 60) ts) \<and>
          0 < w \<and> w \<le> 60"
proof -
  let ?win = "filter (\<lambda>t. t > now - seconds 60) ts"
  from full pos obtain t0 rest where win: "?win = t0 # rest"
    by (cases ?win) auto
  then have "t0 \<in> set ?win" by simp
  then have t0: "t0 > now - seconds 60" "t0 \<le> now" using past by auto
  have res: "check_rate_limit cfg now ts =
      (Inl (RateLimitError (TryAgainIn (total_seconds (t0 - (now - seconds 60))))), ?win)"
    using full win by (simp add: check_rate_limit_def Let_def)
  from t0 have "0 < total_seconds (t0 - (now - seconds 60))"
    "total_seconds (t0 - (now - seconds 60)) \<le> 60"
    by (simp_all add: total_seconds_def seconds_def)
  with res show ?thesis by blast
qed

lemma check_rate_limit_admits:
  assumes "int (length (filter (\<lambda>t. t > now - seconds 60) ts)) < RATE_LIMIT_REQUESTS_PER_MINUTE cfg"
  shows "check_rate_limit cfg now ts = (Inr (), filter (\<lambda>t. t > now - seconds 60) ts @ [now])"
  using assms by (simp add: check_rate_limit_def Let_def)

text \<open>
  Claim C8. Take any sequence of earlier calls to the limiter, none of which read the
  clock later than the present call, and a positive per-minute maximum \<open>K\<close>. If \<open>K\<close>
  of the recorded timestamps lie within the last 60 seconds, the call is rejected with
  a rate-limit error whose wait time is positive and at most 60 seconds, and the
  timestamps kept are the ones already in the window: none is added. Otherwise the call
  is admitted and exactly the present instant is appended to the window.
\<close>

theorem rate_limit_window:
  assumes "0 < RATE_LIMIT_REQUESTS_PER_MINUTE cfg"
    and "\<forall>t \<in> set earlier. t \<le> now"
  shows "(RATE_LIMIT_REQUESTS_PER_MINUTE cfg
            \<le> int (length (filter (\<lambda>t. t > now - seconds 60) (run_rate_limit cfg earlier [])))
          \<longrightarrow> (\<exists>w. check_rate_limit cfg now (run_rate_limit cfg earlier []) =
                  (Inl (RateLimitError (TryAgainIn w)),
                   filter (\<lambda>t. t > now - seconds 60) (run_rate_limit cfg earlier [])) \<and>
                 0 < w \<and> w \<le> 60)) \<and>
         (int (length (filter (\<lambda>t. t > now - seconds 60) (run_rate_limit cfg earlier [])))
            < RATE_LIMIT_REQUESTS_PER_MINUTE cfg
          \<longrightarrow> check_rate_limit cfg now (run_rate_limit cfg earlier []) =
                (Inr (),
                 filter (\<lambda>t. t > now - seconds 60) (run_rate_limit cfg earlier []) @ [now]))"
proof -
  from assms(2) run_rate_limit_subset[of cfg earlier "[]"]
  have past: "\<forall>t \<in> set (run_rate_limit cfg earlier []). t \<le> now" by auto
  show ?thesis
    using check_rate_limit_rejects[OF past _ assms(1)] check_rate_limit_admits
    by blast
qed

theorem rate_limit_window_witness:
  "0 < RATE_LIMIT_REQUESTS_PER_MINUTE (default_settings\<lparr>RATE_LIMIT_REQUESTS_PER_MINUTE := 2\<rparr>) \<and>
   (0 :: int) \<le> 20000000 \<and> (10000000 :: int) \<le> 20000000 \<and>
   RATE_LIMIT_REQUESTS_PER_MINUTE (default_settings\<lparr>RATE_LIMIT_REQUESTS_PER_MINUTE := 2\<rparr>)
     \<le> int (length (filter (\<lambda>t. t > 20000000 - seconds 60)
           (run_rate_limit (default_settings\<lparr>RATE_LIMIT_REQUESTS_PER_MINUTE := 2\<rparr>)
              [0, 10000000] []))) \<and>
   (\<exists>w. check_rate_limit (default_settings\<lparr>RATE_LIMIT_REQUESTS_PER_MINUTE := 2\<rparr>) 20000000
          (run_rate_limit (default_settings\<lparr>RATE_LIMIT_REQUESTS_PER_MINUTE := 2\<rparr>)
             [0, 10000000] []) =
        (Inl (RateLimitError (TryAgainIn w)), [0, 10000000]) \<and> 0 < w \<and> w \<le> 60) \<and>
   check_rate_limit (default_settings\<lparr>RATE_LIMIT_REQUESTS_PER_MINUTE := 2\<rparr>) 10000000
      (run_rate_limit (default_settings\<lparr>RATE_LIMIT_REQUESTS_PER_MINUTE := 2\<rparr>) [0] []) =
     (Inr (), [0, 10000000])"
proof -
  let ?cfg = "default_settings\<lparr>RATE_LIMIT_REQUESTS_PER_MINUTE := 2\<rparr>"
  have k: "0 < RATE_LIMIT_REQUESTS_PER_MINUTE ?cfg" by simp
  have past2: "\<forall>t \<in> set [0, 10000000]. t \<le> (20000000 :: int)" by simp
  have past1: "\<forall>t \<in> set [0]. t \<le> (10000000 :: int)" by simp
  have run2: "run_rate_limit ?cfg [0, 10000000] [] = [0, 10000000]"
    by (simp add: check_rate_limit_def seconds_def)
  have run1: "run_rate_limit ?cfg [0] [] = [0]"
    by (simp add: check_rate_limit_def seconds_def)
  have full: "RATE_LIMIT_REQUESTS_PER_MINUTE ?cfg
      \<le> int (length (filter (\<lambda>t. t > 20000000 - seconds 60)
            (run_rate_limit ?cfg [0, 10000000] [])))"
    by (simp add: run2 seconds_def del: run_rate_limit.simps)
  have room: "int (length (filter (\<lambda>t. t > 10000000 - seconds 60) (run_rate_limit ?cfg [0] [])))
      < RATE_LIMIT_REQUESTS_PER_MINUTE ?cfg"
    by (simp add: run1 seconds_def del: run_rate_limit.simps)
  from rate_limit_window[OF k past2] full
  have "\<exists>w. check_rate_limit ?cfg 20000000 (run_rate_limit ?cfg [0, 10000000] []) =
        (Inl (RateLimitError (TryAgainIn w)),
         filter (\<lambda>t. t > 20000000 - seconds 60) (run_rate_limit ?cfg [0, 10000000] [])) \<and>
        0 < w \<and> w \<le> 60"
    by blast
  then have c1: "\<exists>w. check_rate_limit ?cfg 20000000 (run_rate_limit ?cfg [0, 10000000] []) =
        (Inl (RateLimitError (TryAgainIn w)), [0, 10000000]) \<and> 0 < w \<and> w \<le> 60"
    by (simp add: run2 seconds_def del: run_rate_limit.simps)
  from rate_limit_window[OF k past1] room
  have "check_rate_limit ?cfg 10000000 (run_rate_limit ?cfg [0] []) =
      (Inr (), filter (\<lambda>t. t > 10000000 - seconds 60) (run_rate_limit ?cfg [0] []) @ [10000000])"
    by blast
  then have c2: "check_rate_limit ?cfg 10000000 (run_rate_limit ?cfg [0] []) = (Inr (), [0, 10000000])"
    by (simp add: run1 seconds_def del: run_rate_limit.simps)
  have order: "(0 :: int) \<le> 20000000 \<and> (10000000 :: int) \<le> 20000000" by simp
  from k order full c1 c2 show ?thesis by blast
qed

subsection \<open>Circuit breaker\<close>

lemma run_breaker_snoc:
  "run_breaker cfg (calls @ [c]) cb = apply_breaker_call cfg (run_breaker cfg calls cb) c"
  by (simp add: run_breaker_def)

lemma breaker_call_invariant:
  assumes "0 \<le> failure_count cb"
    and "state cb \<noteq> CLOSED \<longrightarrow>
           CIRCUIT_BREAKER_THRESHOLD cfg \<le> failure_count cb \<and> last_failure_time cb \<noteq> None"
  shows "0 \<le> failure_count (apply_breaker_call cfg cb c) \<and>
         (state (apply_breaker_call cfg cb c) \<noteq> CLOSED \<longrightarrow>
            CIRCUIT_BREAKER_THRESHOLD cfg \<le> failure_count (apply_breaker_call cfg cb c) \<and>
            last_failure_time (apply_breaker_call cfg cb c) \<noteq> None)"
proof (cases c)
  case (RecordFailure now)
  with assms show ?thesis by (auto simp: record_failure_def Let_def)
next
  case RecordSuccess
  then show ?thesis by (simp add: record_success_def)
next
  case (CanExecute now)
  with assms show ?thesis by (auto simp: can_execute_def split: option.splits)
qed

lemma run_breaker_invariant:
  "0 \<le> failure_count (run_breaker cfg calls new_CircuitBreaker) \<and>
   (state (run_breaker cfg calls new_CircuitBreaker) \<noteq> CLOSED \<longrightarrow>
      CIRCUIT_BREAKER_THRESHOLD cfg \<le> failure_count (run_breaker cfg calls new_CircuitBreaker) \<and>
      last_failure_time (run_breaker cfg calls new_CircuitBreaker) \<noteq> None)"
proof (induction calls rule: rev_induct)
  case Nil
  show ?case by (simp add: run_breaker_def new_CircuitBreaker_def)
next
  case (snoc c calls)
  then show ?case
    using breaker_call_invariant[of "run_breaker cfg calls new_CircuitBreaker" cfg c]
    by (simp add: run_breaker_snoc)
qed

lemma failures_accumulate:
  "fs \<noteq> [] \<Longrightarrow>
   failure_count (run_breaker cfg (map RecordFailure fs) cb) = failure_count cb + int (length fs) \<and>
   last_failure_time (run_breaker cfg (map RecordFailure fs) cb) = Some (last fs) \<and>
   (CIRCUIT_BREAKER_THRESHOLD cfg \<le> failure_count cb + int (length fs) \<longrightarrow>
      state (run_breaker cfg (map RecordFailure fs) cb) = OPEN)"
proof (induction fs rule: rev_induct)
  case Nil
  then show ?case by simp
next
  case (snoc now fs)
  show ?case
  proof (cases "fs = []")
    case True
    then show ?thesis by (simp add: run_breaker_def record_failure_def Let_def)
  next
    case False
    with snoc.IH
    have "failure_count (run_breaker cfg (map RecordFailure fs) cb)
            = failure_count cb + int (length fs)"
      by blast
    then show ?thesis
      by (simp add: run_breaker_snoc record_failure_def Let_def)
  qed
qed

lemma threshold_failures_open:
  assumes "0 < CIRCUIT_BREAKER_THRESHOLD cfg" "0 \<le> failure_count cb"
    and "length fs = nat (CIRCUIT_BREAKER_THRESHOLD cfg)"
  shows "state (run_breaker cfg (map RecordFailure fs) cb) = OPEN \<and>
         last_failure_time (run_breaker cfg (map RecordFailure fs) cb) = Some (last fs)"
proof -
  from assms have "fs \<noteq> []" by auto
  from failures_accumulate[OF this, of cfg cb] assms show ?thesis by simp
qed

lemma open_rejects:
  assumes "state (circuit_breaker s) = OPEN" "last_failure_time (circuit_breaker s) = Some t"
    and "t_can_execute env - t \<le> seconds (CIRCUIT_BREAKER_TIMEOUT cfg)"
  shows "call_hf_api cfg env s =
     (Inl (HFInferenceError ''Circuit breaker is OPEN - service temporarily unavailable''), s, False)"
  using assms by (simp add: call_hf_api_def can_execute_def)

lemma open_to_half_open:
  assumes "state cb = OPEN" "last_failure_time cb = Some t"
    and "now - t > seconds (CIRCUIT_BREAKER_TIMEOUT cfg)"
  shows "can_execute cfg now cb = (True, cb\<lparr>state := HALF_OPEN\<rparr>)"
  using assms by (simp add: can_execute_def)

lemma probe_outcome:
  assumes st: "state (circuit_breaker s) \<in> {OPEN, HALF_OPEN}"
    and cnt: "CIRCUIT_BREAKER_THRESHOLD cfg \<le> failure_count (circuit_breaker s)"
    and call: "call_hf_api cfg env s = (r, s', True)"
  shows "(case provider env of
            Inr response_text \<Rightarrow>
              r = Inr response_text \<and> state (circuit_breaker s') = CLOSED \<and>
              failure_count (circuit_breaker s') = 0
          | Inl error_msg \<Rightarrow>
              isl r \<and> state (circuit_breaker s') = OPEN \<and>
              last_failure_time (circuit_breaker s') = Some (t_failure env))"
  using assms
  by (auto simp: call_hf_api_def can_execute_def record_success_def record_failure_def Let_def
      split: if_splits option.splits sum.splits prod.splits)

text \<open>
  Claim C4. Let the threshold \<open>N\<close> be positive and take any breaker state that a history
  of method calls can produce. \<open>N\<close> consecutive recorded failures leave the breaker
  \<^verbatim>\<open>OPEN\<close>, with the instant of the last one as \<^verbatim>\<open>last_failure_time\<close>. While the
  breaker is \<^verbatim>\<open>OPEN\<close> and no more than the cooldown has passed since the last recorded
  failure, \<^verbatim>\<open>_call_hf_api\<close> raises the circuit-open error, does not call the provider
  and changes nothing; once more than the cooldown has passed, \<^verbatim>\<open>can_execute\<close> allows
  the call and moves the breaker to \<^verbatim>\<open>HALF_OPEN\<close>. In \<^verbatim>\<open>HALF_OPEN\<close> a call is allowed;
  a recorded success sets the counter to zero and the state to \<^verbatim>\<open>CLOSED\<close>; a recorded
  failure sets the state to \<^verbatim>\<open>OPEN\<close> and \<^verbatim>\<open>last_failure_time\<close> to its instant. The
  probe is single: a call that starts from \<^verbatim>\<open>OPEN\<close> or \<^verbatim>\<open>HALF_OPEN\<close> and reaches the
  provider ends in \<^verbatim>\<open>CLOSED\<close> with counter zero when the provider answers, and in
  \<^verbatim>\<open>OPEN\<close> with a restarted cooldown when it fails, never in \<^verbatim>\<open>HALF_OPEN\<close>.
\<close>

theorem circuit_breaker_state_machine:
  assumes threshold: "0 < CIRCUIT_BREAKER_THRESHOLD cfg"
    and reachable: "circuit_breaker s = run_breaker cfg history new_CircuitBreaker"
  shows
    "(length fs = nat (CIRCUIT_BREAKER_THRESHOLD cfg) \<longrightarrow>
        state (run_breaker cfg (map RecordFailure fs) (circuit_breaker s)) = OPEN \<and>
        last_failure_time (run_breaker cfg (map RecordFailure fs) (circuit_breaker s))
          = Some (last fs)) \<and>
     (state (circuit_breaker s) = OPEN \<longrightarrow>
        (\<exists>t. last_failure_time (circuit_breaker s) = Some t \<and>
             (t_can_execute env - t \<le> seconds (CIRCUIT_BREAKER_TIMEOUT cfg) \<longrightarrow>
                call_hf_api cfg env s =
                  (Inl (HFInferenceError
                          ''Circuit breaker is OPEN - service temporarily unavailable''),
                   s, False)) \<and>
             (t_can_execute env - t > seconds (CIRCUIT_BREAKER_TIMEOUT cfg) \<longrightarrow>
                can_execute cfg (t_can_execute env) (circuit_breaker s) =
                  (True, (circuit_breaker s)\<lparr>state := HALF_OPEN\<rparr>)))) \<and>
     (state (circuit_breaker s) = HALF_OPEN \<longrightarrow>
        can_execute cfg (t_can_execute env) (circuit_breaker s) = (True, circuit_breaker s) \<and>
        failure_count (record_success (circuit_breaker s)) = 0 \<and>
        state (record_success (circuit_breaker s)) = CLOSED \<and>
        state (record_failure cfg (t_failure env) (circuit_breaker s)) = OPEN \<and>
        last_failure_time (record_failure cfg (t_failure env) (circuit_breaker s))
          = Some (t_failure env)) \<and>
     (state (circuit_breaker s) \<in> {OPEN, HALF_OPEN} \<and> call_hf_api cfg env s = (r, s', True) \<longrightarrow>
        (case provider env of
           Inr response_text \<Rightarrow>
             r = Inr response_text \<and> state (circuit_breaker s') = CLOSED \<and>
             failure_count (circuit_breaker s') = 0
         | Inl error_msg \<Rightarrow>
             isl r \<and> state (circuit_breaker s') = OPEN \<and>
             last_failure_time (circuit_breaker s') = Some (t_failure env)))"
proof -
  from run_breaker_invariant[of cfg history] reachable
  have nonneg: "0 \<le> failure_count (circuit_breaker s)"
    and tripped: "state (circuit_breaker s) \<noteq> CLOSED \<longrightarrow>
        CIRCUIT_BREAKER_THRESHOLD cfg \<le> failure_count (circuit_breaker s) \<and>
        last_failure_time (circuit_breaker s) \<noteq> None"
    by simp_all
  have a: "length fs = nat (CIRCUIT_BREAKER_THRESHOLD cfg) \<longrightarrow>
        state (run_breaker cfg (map RecordFailure fs) (circuit_breaker s)) = OPEN \<and>
        last_failure_time (run_breaker cfg (map RecordFailure fs) (circuit_breaker s))
          = Some (last fs)"
    using threshold_failures_open[OF threshold nonneg] by blast
  have b: "state (circuit_breaker s) = OPEN \<longrightarrow>
        (\<exists>t. last_failure_time (circuit_breaker s) = Some t \<and>
             (t_can_execute env - t \<le> seconds (CIRCUIT_BREAKER_TIMEOUT cfg) \<longrightarrow>
                call_hf_api cfg env s =
                  (Inl (HFInferenceError
                          ''Circuit breaker is OPEN - service temporarily unavailable''),
                   s, False)) \<and>
             (t_can_execute env - t > seconds (CIRCUIT_BREAKER_TIMEOUT cfg) \<longrightarrow>
                can_execute cfg (t_can_execute env) (circuit_breaker s) =
                  (True, (circuit_breaker s)\<lparr>state := HALF_OPEN\<rparr>)))"
  proof
    assume op: "state (circuit_breaker s) = OPEN"
    with tripped obtain t where t: "last_failure_time (circuit_breaker s) = Some t" by auto
    from open_rejects[OF op t] open_to_half_open[OF op t] t
    show "\<exists>t. last_failure_time (circuit_breaker s) = Some t \<and>
             (t_can_execute env - t \<le> seconds (CIRCUIT_BREAKER_TIMEOUT cfg) \<longrightarrow>
                call_hf_api cfg env s =
                  (Inl (HFInferenceError
                          ''Circuit breaker is OPEN - service temporarily unavailable''),
                   s, False)) \<and>
             (t_can_execute env - t > seconds (CIRCUIT_BREAKER_TIMEOUT cfg) \<longrightarrow>
                can_execute cfg (t_can_execute env) (circuit_breaker s) =
                  (True, (circuit_breaker s)\<lparr>state := HALF_OPEN\<rparr>))"
      by blast
  qed
  have c: "state (circuit_breaker s) = HALF_OPEN \<longrightarrow>
        can_execute cfg (t_can_execute env) (circuit_breaker s) = (True, circuit_breaker s) \<and>
        failure_count (record_success (circuit_breaker s)) = 0 \<and>
        state (record_success (circuit_breaker s)) = CLOSED \<and>
        state (record_failure cfg (t_failure env) (circuit_breaker s)) = OPEN \<and>
        last_failure_time (record_failure cfg (t_failure env) (circuit_breaker s))
          = Some (t_failure env)"
    using tripped by (auto simp: can_execute_def record_success_def record_failure_def Let_def)
  have d: "state (circuit_breaker s) \<in> {OPEN, HALF_OPEN} \<and> call_hf_api cfg env s = (r, s', True) \<longrightarrow>
        (case provider env of
           Inr response_text \<Rightarrow>
             r = Inr response_text \<and> state (circuit_breaker s') = CLOSED \<and>
             failure_count (circuit_breaker s') = 0
         | Inl error_msg \<Rightarrow>
             isl r \<and> state (circuit_breaker s') = OPEN \<and>
             last_failure_time (circuit_breaker s') = Some (t_failure env))"
  proof
    assume h: "state (circuit_breaker s) \<in> {OPEN, HALF_OPEN} \<and> call_hf_api cfg env s = (r, s', True)"
    with tripped have "CIRCUIT_BREAKER_THRESHOLD cfg \<le> failure_count (circuit_breaker s)" by auto
    with h show "(case provider env of
           Inr response_text \<Rightarrow>
             r = Inr response_text \<and> state (circuit_breaker s') = CLOSED \<and>
             failure_count (circuit_breaker s') = 0
         | Inl error_msg \<Rightarrow>
             isl r \<and> state (circuit_breaker s') = OPEN \<and>
             last_failure_time (circuit_breaker s') = Some (t_failure env))"
      using probe_outcome[of s cfg env r s'] by blast
  qed
  from a b c d show ?thesis by (intro conjI)
qed

theorem circuit_breaker_state_machine_witness:
  "0 < CIRCUIT_BREAKER_THRESHOLD (default_settings\<lparr>CIRCUIT_BREAKER_THRESHOLD := 2\<rparr>) \<and>
   run_breaker (default_settings\<lparr>CIRCUIT_BREAKER_THRESHOLD := 2\<rparr>)
       (map RecordFailure [0, 1000000]) new_CircuitBreaker =
     \<lparr>failure_count = 2, last_failure_time = Some 1000000, state = OPEN\<rparr> \<and>
   call_hf_api (default_settings\<lparr>CIRCUIT_BREAKER_THRESHOLD := 2\<rparr>)
       \<lparr>t_can_execute = 30000000, t_rate_limit = 30000001, t_failure = 30000002,
        cached = None, provider = Inr ''answer''\<rparr>
       \<lparr>circuit_breaker = \<lparr>failure_count = 2, last_failure_time = Some 1000000, state = OPEN\<rparr>,
        request_timestamps = [], ai_mock_mode = False, model_name = ''mistral''\<rparr> =
     (Inl (HFInferenceError ''Circuit breaker is OPEN - service temporarily unavailable''),
      \<lparr>circuit_breaker = \<lparr>failure_count = 2, last_failure_time = Some 1000000, state = OPEN\<rparr>,
       request_timestamps = [], ai_mock_mode = False, model_name = ''mistral''\<rparr>, False) \<and>
   can_execute (default_settings\<lparr>CIRCUIT_BREAKER_THRESHOLD := 2\<rparr>) 62000000
       \<lparr>failure_count = 2, last_failure_time = Some 1000000, state = OPEN\<rparr> =
     (True, \<lparr>failure_count = 2, last_failure_time = Some 1000000, state = HALF_OPEN\<rparr>) \<and>
   call_hf_api (default_settings\<lparr>CIRCUIT_BREAKER_THRESHOLD := 2\<rparr>)
       \<lparr>t_can_execute = 62000000, t_rate_limit = 62000001, t_failure = 62000002,
        cached = None, provider = Inr ''answer''\<rparr>
       \<lparr>circuit_breaker = \<lparr>failure_count = 2, last_failure_time = Some 1000000, state = OPEN\<rparr>,
        request_timestamps = [], ai_mock_mode = False, model_name = ''mistral''\<rparr> =
     (Inr ''answer'',
      \<lparr>circuit_breaker = \<lparr>failure_count = 0, last_failure_time = Some 1000000, state = CLOSED\<rparr>,
       request_timestamps = [62000001], ai_mock_mode = False, model_name = ''mistral''\<rparr>, True) \<and>
   call_hf_api (default_settings\<lparr>CIRCUIT_BREAKER_THRESHOLD := 2\<rparr>)
       \<lparr>t_can_execute = 62000000, t_rate_limit = 62000001, t_failure = 62000002,
        cached = None, provider = Inl ''timeout''\<rparr>
       \<lparr>circuit_breaker = \<lparr>failure_count = 2, last_failure_time = Some 1000000, state = HALF_OPEN\<rparr>,
        request_timestamps = [], ai_mock_mode = False, model_name = ''mistral''\<rparr> =
     (Inl (HFInferenceError ''HF API error: timeout''),
      \<lparr>circuit_breaker = \<lparr>failure_count = 3, last_failure_time = Some 62000002, state = OPEN\<rparr>,
       request_timestamps = [62000001], ai_mock_mode = False, model_name = ''mistral''\<rparr>, True)"
proof -
  let ?cfg = "default_settings\<lparr>CIRCUIT_BREAKER_THRESHOLD := 2\<rparr>"
  let ?hist = "map RecordFailure [0, 1000000]"
  let ?open = "\<lparr>failure_count = 2, last_failure_time = Some 1000000, state = OPEN\<rparr>"
  let ?half = "\<lparr>failure_count = 2, last_failure_time = Some 1000000, state = HALF_OPEN\<rparr>"
  let ?s = "\<lparr>circuit_breaker = ?open, request_timestamps = [], ai_mock_mode = False,
             model_name = ''mistral''\<rparr>"
  let ?sh = "\<lparr>circuit_breaker = ?half, request_timestamps = [], ai_mock_mode = False,
             model_name = ''mistral''\<rparr>"
  let ?early = "\<lparr>t_can_execute = 30000000, t_rate_limit = 30000001, t_failure = 30000002,
        cached = None, provider = Inr ''answer''\<rparr>"
  let ?ok = "\<lparr>t_can_execute = 62000000, t_rate_limit = 62000001, t_failure = 62000002,
        cached = None, provider = Inr ''answer''\<rparr>"
  let ?bad = "\<lparr>t_can_execute = 62000000, t_rate_limit = 62000001, t_failure = 62000002,
        cached = None, provider = Inl ''timeout''\<rparr>"
  have n: "0 < CIRCUIT_BREAKER_THRESHOLD ?cfg" by simp
  have hist: "run_breaker ?cfg ?hist new_CircuitBreaker = ?open"
    by (simp add: run_breaker_def record_failure_def new_CircuitBreaker_def)
  have hist_half: "run_breaker ?cfg (?hist @ [CanExecute 62000000]) new_CircuitBreaker = ?half"
    by (simp add: run_breaker_def record_failure_def new_CircuitBreaker_def can_execute_def
        seconds_def default_settings_def)
  have r_open: "circuit_breaker ?s = run_breaker ?cfg ?hist new_CircuitBreaker"
    using hist by simp
  have r_half: "circuit_breaker ?sh =
      run_breaker ?cfg (?hist @ [CanExecute 62000000]) new_CircuitBreaker"
    using hist_half by simp
  have r_new: "circuit_breaker \<lparr>circuit_breaker = new_CircuitBreaker, request_timestamps = [],
      ai_mock_mode = False, model_name = ''mistral''\<rparr> = run_breaker ?cfg [] new_CircuitBreaker"
    by (simp add: run_breaker_def)
  have c0: "state (run_breaker ?cfg ?hist new_CircuitBreaker) = OPEN"
    using circuit_breaker_state_machine[OF n r_new, where fs = "[0, 1000000]"] by simp
  have c1: "call_hf_api ?cfg ?early ?s =
      (Inl (HFInferenceError ''Circuit breaker is OPEN - service temporarily unavailable''),
       ?s, False)"
    using circuit_breaker_state_machine[OF n r_open, where env = ?early]
    by (simp add: seconds_def default_settings_def)
  have c2: "can_execute ?cfg 62000000 ?open = (True, ?half)"
    using circuit_breaker_state_machine[OF n r_open, where env = ?ok]
    by (simp add: seconds_def default_settings_def)
  have e3: "call_hf_api ?cfg ?ok ?s =
      (Inr ''answer'',
       \<lparr>circuit_breaker = \<lparr>failure_count = 0, last_failure_time = Some 1000000, state = CLOSED\<rparr>,
        request_timestamps = [62000001], ai_mock_mode = False, model_name = ''mistral''\<rparr>, True)"
    by (simp add: call_hf_api_def can_execute_def check_rate_limit_def record_success_def
        seconds_def default_settings_def)
  have e4: "call_hf_api ?cfg ?bad ?sh =
      (Inl (HFInferenceError ''HF API error: timeout''),
       \<lparr>circuit_breaker = \<lparr>failure_count = 3, last_failure_time = Some 62000002, state = OPEN\<rparr>,
        request_timestamps = [62000001], ai_mock_mode = False, model_name = ''mistral''\<rparr>, True)"
    by (simp add: call_hf_api_def can_execute_def check_rate_limit_def record_failure_def
        seconds_def default_settings_def lower_def lower_char_def sublist_code(3))
  have c3: "state (circuit_breaker \<lparr>circuit_breaker =
        \<lparr>failure_count = 0, last_failure_time = Some 1000000, state = CLOSED\<rparr>,
        request_timestamps = [62000001], ai_mock_mode = False, model_name = ''mistral''\<rparr>) = CLOSED"
    using circuit_breaker_state_machine[OF n r_open, where env = ?ok and r = "Inr ''answer''"
        and s' = "\<lparr>circuit_breaker =
        \<lparr>failure_count = 0, last_failure_time = Some 1000000, state = CLOSED\<rparr>,
        request_timestamps = [62000001], ai_mock_mode = False, model_name = ''mistral''\<rparr>"] e3
    by simp
  have c4: "state (circuit_breaker \<lparr>circuit_breaker =
        \<lparr>failure_count = 3, last_failure_time = Some 62000002, state = OPEN\<rparr>,
        request_timestamps = [62000001], ai_mock_mode = False, model_name = ''mistral''\<rparr>) = OPEN"
    using circuit_breaker_state_machine[OF n r_half, where env = ?bad
        and r = "Inl (HFInferenceError ''HF API error: timeout'')"
        and s' = "\<lparr>circuit_breaker =
        \<lparr>failure_count = 3, last_failure_time = Some 62000002, state = OPEN\<rparr>,
        request_timestamps = [62000001], ai_mock_mode = False, model_name = ''mistral''\<rparr>"] e4
    by simp
  from n hist c0 c1 c2 c3 c4 e3 e4 show ?thesis by blast
qed

subsection \<open>Confidence\<close>

lemma calculate_confidence_nonempty:
  "context_docs \<noteq> [] \<Longrightarrow>
   calculate_confidence context_docs =
     min (average_similarity context_docs
          + min (of_nat (high_relevance_count context_docs) * (5 / 100)) (15 / 100)) 1"
  by (simp add: calculate_confidence_def average_similarity_def high_relevance_count_def
      Let_def filter_map comp_def)

lemma confidence_monotone:
  assumes "xs \<noteq> []" "ys \<noteq> []"
    and "average_similarity xs = average_similarity ys"
    and "high_relevance_count xs \<le> high_relevance_count ys"
  shows "calculate_confidence xs \<le> calculate_confidence ys"
proof -
  from assms(4) have "(of_nat (high_relevance_count xs) :: rat) \<le> of_nat (high_relevance_count ys)"
    by simp
  then have "min ((of_nat (high_relevance_count xs) :: rat) * (5 / 100)) (15 / 100)
      \<le> min (of_nat (high_relevance_count ys) * (5 / 100)) (15 / 100)"
    by (simp add: min_def)
  with assms(1-3) show ?thesis
    by (simp add: calculate_confidence_nonempty min_def)
qed

lemma confidence_upper: "calculate_confidence xs \<le> 1"
proof (cases "xs = []")
  case True
  then show ?thesis by (simp add: calculate_confidence_def)
next
  case False
  then show ?thesis by (simp add: calculate_confidence_nonempty)
qed

lemma confidence_lower:
  assumes "0 \<le> average_similarity xs"
  shows "0 \<le> calculate_confidence xs"
proof (cases "xs = []")
  case True
  then show ?thesis by (simp add: calculate_confidence_def)
next
  case False
  have "(0::rat) \<le> min (of_nat (high_relevance_count xs) * (5 / 100)) (15 / 100)"
    by (simp add: min_def)
  with assms False show ?thesis
    by (simp add: calculate_confidence_nonempty min_def)
qed

text \<open>
  Claim C5, as stated, fails: the confidence is clamped from above only. For a single
  retrieved chunk of similarity \<open>-1/5\<close> (a cosine similarity may be negative) the
  confidence is \<open>-1/5\<close>, outside \<open>[0, 1]\<close>.
\<close>

theorem confidence_clamp_counterexample:
  "\<not> (0 \<le> calculate_confidence
           [\<lparr>cd_content = ''unrelated text'',
             cd_metadata = \<lparr>md_document_id = 1, md_filename = Some ''a.txt'',
                md_page_number = None, md_section_title = None, md_chunk_index = 0,
                md_access_scope = ''project'', md_project_id = Some 1\<rparr>,
             cd_similarity_score = - 1 / 5, cd_document_id = 1, cd_chunk_index = 0\<rparr>])"
  by (simp add: calculate_confidence_def)

text \<open>
  Claim C5, amended. For non-empty lists of retrieved chunks with the same average
  similarity, the confidence is monotonically non-decreasing in the number of chunks whose
  similarity exceeds \<open>0.7\<close>. The confidence never exceeds 1, and it is at least 0
  whenever the average similarity is at least 0. For the empty list it is \<open>0.5\<close>.
\<close>

theorem confidence_properties:
  "(xs \<noteq> [] \<and> ys \<noteq> [] \<and> average_similarity xs = average_similarity ys \<and>
      high_relevance_count xs \<le> high_relevance_count ys
    \<longrightarrow> calculate_confidence xs \<le> calculate_confidence ys) \<and>
   calculate_confidence xs \<le> 1 \<and>
   (0 \<le> average_similarity xs \<longrightarrow> 0 \<le> calculate_confidence xs) \<and>
   calculate_confidence [] = 1 / 2"
  using confidence_monotone[of xs ys] confidence_upper[of xs] confidence_lower[of xs]
  by (simp add: calculate_confidence_def)

theorem confidence_properties_witness:
  "average_similarity [sample_doc ''a'' (3 / 5), sample_doc ''b'' (3 / 5)] =
     average_similarity [sample_doc ''c'' (4 / 5), sample_doc ''d'' (2 / 5)] \<and>
   high_relevance_count [sample_doc ''a'' (3 / 5), sample_doc ''b'' (3 / 5)] = 0 \<and>
   high_relevance_count [sample_doc ''c'' (4 / 5), sample_doc ''d'' (2 / 5)] = 1 \<and>
   calculate_confidence [sample_doc ''a'' (3 / 5), sample_doc ''b'' (3 / 5)] = 3 / 5 \<and>
   calculate_confidence [sample_doc ''c'' (4 / 5), sample_doc ''d'' (2 / 5)] = 13 / 20 \<and>
   calculate_confidence [sample_doc ''a'' (3 / 5), sample_doc ''b'' (3 / 5)]
     \<le> calculate_confidence [sample_doc ''c'' (4 / 5), sample_doc ''d'' (2 / 5)] \<and>
   0 \<le> calculate_confidence [sample_doc ''c'' (4 / 5), sample_doc ''d'' (2 / 5)] \<and>
   calculate_confidence [sample_doc ''c'' (4 / 5), sample_doc ''d'' (2 / 5)] \<le> 1"
proof -
  let ?xs = "[sample_doc ''a'' (3 / 5), sample_doc ''b'' (3 / 5)]"
  let ?ys = "[sample_doc ''c'' (4 / 5), sample_doc ''d'' (2 / 5)]"
  have avg: "average_similarity ?xs = average_similarity ?ys"
    by (simp add: average_similarity_def sample_doc_def)
  have cx: "high_relevance_count ?xs = 0" and cy: "high_relevance_count ?ys = 1"
    by (simp_all add: high_relevance_count_def sample_doc_def)
  have vx: "calculate_confidence ?xs = 3 / 5" and vy: "calculate_confidence ?ys = 13 / 20"
    by (simp_all add: calculate_confidence_def sample_doc_def)
  have pos: "0 \<le> average_similarity ?ys"
    by (simp add: average_similarity_def sample_doc_def)
  have hyp: "?xs \<noteq> [] \<and> ?ys \<noteq> [] \<and> average_similarity ?xs = average_similarity ?ys \<and>
      high_relevance_count ?xs \<le> high_relevance_count ?ys"
    using avg cx cy by simp
  from confidence_properties[of ?xs ?ys] hyp
  have mono: "calculate_confidence ?xs \<le> calculate_confidence ?ys" by blast
  from confidence_properties[of ?ys ?ys] pos
  have bounds: "0 \<le> calculate_confidence ?ys \<and> calculate_confidence ?ys \<le> 1" by blast
  from avg cx cy vx vy mono bounds show ?thesis by blast
qed

subsection \<open>Citations\<close>

lemma extract_citations_filter:
  "extract_citations cfg docs =
     map cite (filter (\<lambda>doc. MIN_SIMILARITY_SCORE cfg \<le> cd_similarity_score doc) docs)"
  by (induction docs) simp_all

text \<open>
  Claim C6, as stated, fails at the boundary: a chunk whose similarity equals the
  minimum-similarity threshold is cited, although it is not above the threshold.
\<close>

theorem citations_threshold_counterexample:
  "extract_citations default_settings
      [\<lparr>cd_content = ''Annual leave is 25 days.'',
        cd_metadata = \<lparr>md_document_id = 1, md_filename = Some ''handbook.pdf'',
           md_page_number = Some 2, md_section_title = None, md_chunk_index = 0,
           md_access_scope = ''project'', md_project_id = Some 1\<rparr>,
        cd_similarity_score = 1 / 2, cd_document_id = 1, cd_chunk_index = 0\<rparr>] \<noteq>
   map cite (filter (\<lambda>doc. cd_similarity_score doc > MIN_SIMILARITY_SCORE default_settings)
      [\<lparr>cd_content = ''Annual leave is 25 days.'',
        cd_metadata = \<lparr>md_document_id = 1, md_filename = Some ''handbook.pdf'',
           md_page_number = Some 2, md_section_title = None, md_chunk_index = 0,
           md_access_scope = ''project'', md_project_id = Some 1\<rparr>,
        cd_similarity_score = 1 / 2, cd_document_id = 1, cd_chunk_index = 0\<rparr>])"
  by (simp add: default_settings_def)

text \<open>
  Claim C6, amended. The citations extracted from a list of retrieved chunks, and so
  the citations of every answer the provider generated, are exactly the chunks whose
  similarity is at or above the minimum-similarity threshold, in retrieval order; with
  two chunks scoring \<open>0.9\<close> and \<open>0.4\<close> and threshold \<open>0.5\<close>, exactly the first is
  cited.
\<close>

theorem citations_threshold:
  "extract_citations cfg docs =
     map cite (filter (\<lambda>doc. cd_similarity_score doc \<ge> MIN_SIMILARITY_SCORE cfg) docs) \<and>
   (\<not> ai_mock_mode s \<and> call_hf_api cfg env s = (Inr response_text, s', contacted) \<longrightarrow>
      a_citations (fst (generate_answer cfg env s query docs)) =
        map cite (filter (\<lambda>doc. cd_similarity_score doc \<ge> MIN_SIMILARITY_SCORE cfg) docs))"
  by (simp add: extract_citations_filter generate_answer_def)

theorem citations_threshold_witness:
  "MIN_SIMILARITY_SCORE default_settings = 1 / 2 \<and>
   call_hf_api default_settings
      \<lparr>t_can_execute = 10000000, t_rate_limit = 10000001, t_failure = 10000002,
       cached = None, provider = Inr ''Annual leave is 25 days.''\<rparr>
      \<lparr>circuit_breaker = new_CircuitBreaker, request_timestamps = [], ai_mock_mode = False,
       model_name = ''mistral''\<rparr> =
     (Inr ''Annual leave is 25 days.'',
      \<lparr>circuit_breaker = new_CircuitBreaker, request_timestamps = [10000001],
       ai_mock_mode = False, model_name = ''mistral''\<rparr>, True) \<and>
   a_citations (fst (generate_answer default_settings
      \<lparr>t_can_execute = 10000000, t_rate_limit = 10000001, t_failure = 10000002,
       cached = None, provider = Inr ''Annual leave is 25 days.''\<rparr>
      \<lparr>circuit_breaker = new_CircuitBreaker, request_timestamps = [], ai_mock_mode = False,
       model_name = ''mistral''\<rparr>
      ''How many days of leave?''
      [sample_doc ''Annual leave is 25 days.'' (9 / 10), sample_doc ''Parking rules.'' (2 / 5)])) =
     [cite (sample_doc ''Annual leave is 25 days.'' (9 / 10))]"
proof -
  let ?docs = "[sample_doc ''Annual leave is 25 days.'' (9 / 10),
                sample_doc ''Parking rules.'' (2 / 5)]"
  let ?env = "\<lparr>t_can_execute = 10000000, t_rate_limit = 10000001, t_failure = 10000002,
       cached = None, provider = Inr ''Annual leave is 25 days.''\<rparr>"
  let ?s = "\<lparr>circuit_breaker = new_CircuitBreaker, request_timestamps = [], ai_mock_mode = False,
       model_name = ''mistral''\<rparr>"
  let ?s' = "\<lparr>circuit_breaker = new_CircuitBreaker, request_timestamps = [10000001],
       ai_mock_mode = False, model_name = ''mistral''\<rparr>"
  have m: "MIN_SIMILARITY_SCORE default_settings = 1 / 2" by (simp add: default_settings_def)
  have call: "call_hf_api default_settings ?env ?s = (Inr ''Annual leave is 25 days.'', ?s', True)"
    by (simp add: call_hf_api_def can_execute_def check_rate_limit_def record_success_def
        new_CircuitBreaker_def seconds_def default_settings_def)
  have hyp: "\<not> ai_mock_mode ?s \<and>
      call_hf_api default_settings ?env ?s = (Inr ''Annual leave is 25 days.'', ?s', True)"
    using call by simp
  from citations_threshold[where cfg = default_settings and docs = ?docs and s = ?s
      and env = ?env and response_text = "''Annual leave is 25 days.''" and s' = ?s'
      and contacted = True and query = "''How many days of leave?''"] hyp
  have "a_citations (fst (generate_answer default_settings ?env ?s ''How many days of leave?'' ?docs)) =
     map cite (filter (\<lambda>doc. cd_similarity_score doc \<ge> MIN_SIMILARITY_SCORE default_settings) ?docs)"
    by blast
  also have "\<dots> = [cite (sample_doc ''Annual leave is 25 days.'' (9 / 10))]"
    by (simp add: m sample_doc_def)
  finally show ?thesis using m call by blast
qed

subsection \<open>Degraded answers\<close>

lemma sublist_inside:
  assumes "sublist x b"
  shows "sublist x (a @ b @ c)"
proof -
  from assms obtain ps ss where "b = ps @ x @ ss" by (auto simp: sublist_def)
  then have "a @ b @ c = (a @ ps) @ x @ (ss @ c)" by simp
  then show ?thesis unfolding sublist_def by blast
qed

lemma sublist_join:
  "x \<in> set xs \<Longrightarrow> sublist x (join sep xs)"
proof (induction sep xs rule: join.induct)
  case (1 sep)
  then show ?case by simp
next
  case (2 sep y)
  then show ?case by simp
next
  case (3 sep y z zs)
  show ?case
  proof (cases "x = y")
    case True
    then show ?thesis by simp
  next
    case False
    with 3 have "sublist x (join sep (z # zs))" by simp
    then have "sublist x ((y @ sep) @ join sep (z # zs) @ [])"
      by (rule sublist_inside)
    then show ?thesis by simp
  qed
qed

lemma fallback_contains_excerpts:
  assumes "\<exists>d \<in> set (take 3 docs). strip (cd_content d) \<noteq> []"
  shows "generate_context_fallback docs =
           fallback_banner @ join excerpt_separator (relevant_content docs) @ fallback_footer \<and>
         (\<forall>d \<in> set (take 3 docs). strip (cd_content d) \<noteq> [] \<longrightarrow>
            sublist (fallback_excerpt d) (generate_context_fallback docs))"
proof -
  from assms have ne: "docs \<noteq> []" by auto
  from assms have rc: "relevant_content docs \<noteq> []"
    by (auto simp: relevant_content_def filter_empty_conv)
  from ne rc have eq: "generate_context_fallback docs =
      fallback_banner @ join excerpt_separator (relevant_content docs) @ fallback_footer"
    by (simp add: generate_context_fallback_def)
  have "sublist (fallback_excerpt d) (generate_context_fallback docs)"
    if "d \<in> set (take 3 docs)" "strip (cd_content d) \<noteq> []" for d
  proof -
    from that have "fallback_excerpt d \<in> set (relevant_content docs)"
      by (auto simp: relevant_content_def)
    then have "sublist (fallback_excerpt d) (join excerpt_separator (relevant_content docs))"
      by (rule sublist_join)
    then show ?thesis unfolding eq
      by (rule sublist_inside)
  qed
  with eq show ?thesis by blast
qed

lemma fallback_banner_prefix:
  assumes "\<exists>d \<in> set (take 3 docs). strip (cd_content d) \<noteq> []"
  shows "prefix fallback_banner (generate_context_fallback docs)"
  using fallback_contains_excerpts[OF assms] by simp

lemma degraded_with_context:
  assumes "\<not> ai_mock_mode s" "call_hf_api cfg env s = (Inl (HFInferenceError m), s', contacted)"
    and "has_content docs"
  shows "fst (generate_answer cfg env s query docs) =
     \<lparr>a_answer = generate_context_fallback docs,
      a_citations = extract_citations cfg docs,
      a_confidence_score = 1 / 2,
      a_model_used = ''fallback (HF API unavailable)'',
      a_error = Some (ErrorText ''AI service temporarily unavailable - showing relevant document excerpts''),
      a_context_docs_used = None, a_cached = None, a_mock_mode = None\<rparr>"
  using assms by (simp add: generate_answer_def)

lemma degraded_without_context:
  assumes "\<not> ai_mock_mode s" "call_hf_api cfg env s = (Inl (HFInferenceError m), s', contacted)"
    and "\<not> has_content docs"
  shows "fst (generate_answer cfg env s query docs) =
     \<lparr>a_answer = ''The AI service is temporarily unavailable due to network issues. Please try again when your internet connection is restored.'',
      a_citations = [], a_confidence_score = 0, a_model_used = model_name s,
      a_error = Some (ErrorOf (HFInferenceError m)),
      a_context_docs_used = None, a_cached = None, a_mock_mode = None\<rparr>"
  using assms by (simp add: generate_answer_def)

lemma normal_answer_unflagged:
  assumes "\<not> ai_mock_mode s" "call_hf_api cfg env s = (Inr response_text, s', contacted)"
  shows "a_error (fst (generate_answer cfg env s query docs)) = None \<and>
         a_model_used (fst (generate_answer cfg env s query docs)) = model_name s"
  using assms by (simp add: generate_answer_def)

text \<open>
  Claim C7, amended. Let the guarded provider call of \<^verbatim>\<open>generate_answer\<close> end with the
  inference-unavailable error (the client is then not in mock mode, where no call is
  made). If some retrieved chunk has non-empty content, the answer is flagged as not
  generated (\<^verbatim>\<open>model_used\<close> names the fallback, an \<^verbatim>\<open>error\<close> entry is set) and its
  confidence is \<open>0.5\<close>; if moreover one of the first three chunks has content that is not
  blank, the text begins with the service-degraded banner and contains, for every such
  chunk among the first three, its source header followed by its stripped content cut to
  500 characters. If no chunk has non-empty content, the answer is the fixed apologetic
  message, with no citations.
\<close>

theorem degraded_answer:
  assumes real: "\<not> ai_mock_mode s"
    and down: "call_hf_api cfg env s = (Inl (HFInferenceError m), s', contacted)"
  shows
    "(has_content docs \<longrightarrow>
        a_model_used (fst (generate_answer cfg env s query docs)) = ''fallback (HF API unavailable)'' \<and>
        a_error (fst (generate_answer cfg env s query docs)) =
          Some (ErrorText ''AI service temporarily unavailable - showing relevant document excerpts'') \<and>
        a_confidence_score (fst (generate_answer cfg env s query docs)) = 1 / 2 \<and>
        a_citations (fst (generate_answer cfg env s query docs)) = extract_citations cfg docs \<and>
        a_answer (fst (generate_answer cfg env s query docs)) = generate_context_fallback docs \<and>
        ((\<exists>d \<in> set (take 3 docs). strip (cd_content d) \<noteq> []) \<longrightarrow>
           prefix fallback_banner (a_answer (fst (generate_answer cfg env s query docs))) \<and>
           (\<forall>d \<in> set (take 3 docs). strip (cd_content d) \<noteq> [] \<longrightarrow>
              sublist (fallback_source d @ '':'' @ [CHR 0x0A] @ truncate_content (strip (cd_content d)))
                (a_answer (fst (generate_answer cfg env s query docs)))))) \<and>
     (\<not> has_content docs \<longrightarrow>
        a_answer (fst (generate_answer cfg env s query docs)) =
          ''The AI service is temporarily unavailable due to network issues. Please try again when your internet connection is restored.'' \<and>
        a_citations (fst (generate_answer cfg env s query docs)) = [] \<and>
        a_confidence_score (fst (generate_answer cfg env s query docs)) = 0 \<and>
        a_error (fst (generate_answer cfg env s query docs)) = Some (ErrorOf (HFInferenceError m)))"
proof (intro conjI impI)
  assume hc: "has_content docs"
  note eq = degraded_with_context[OF real down hc, of query]
  show "a_model_used (fst (generate_answer cfg env s query docs)) = ''fallback (HF API unavailable)''"
    by (simp add: eq)
  show "a_error (fst (generate_answer cfg env s query docs)) =
          Some (ErrorText ''AI service temporarily unavailable - showing relevant document excerpts'')"
    by (simp add: eq)
  show "a_confidence_score (fst (generate_answer cfg env s query docs)) = 1 / 2"
    by (simp add: eq)
  show "a_citations (fst (generate_answer cfg env s query docs)) = extract_citations cfg docs"
    by (simp add: eq)
  show "a_answer (fst (generate_answer cfg env s query docs)) = generate_context_fallback docs"
    by (simp add: eq)
  assume ex: "\<exists>d \<in> set (take 3 docs). strip (cd_content d) \<noteq> []"
  show "prefix fallback_banner (a_answer (fst (generate_answer cfg env s query docs)))"
    using fallback_banner_prefix[OF ex] by (simp add: eq)
  show "\<forall>d \<in> set (take 3 docs). strip (cd_content d) \<noteq> [] \<longrightarrow>
          sublist (fallback_source d @ '':'' @ [CHR 0x0A] @ truncate_content (strip (cd_content d)))
            (a_answer (fst (generate_answer cfg env s query docs)))"
    using fallback_contains_excerpts[OF ex, THEN conjunct2] by (simp add: eq fallback_excerpt_def)
next
  assume nc: "\<not> has_content docs"
  note eq = degraded_without_context[OF real down nc, of query]
  show "a_answer (fst (generate_answer cfg env s query docs)) =
          ''The AI service is temporarily unavailable due to network issues. Please try again when your internet connection is restored.''"
    by (simp add: eq)
  show "a_citations (fst (generate_answer cfg env s query docs)) = []"
    by (simp add: eq)
  show "a_confidence_score (fst (generate_answer cfg env s query docs)) = 0"
    by (simp add: eq)
  show "a_error (fst (generate_answer cfg env s query docs)) = Some (ErrorOf (HFInferenceError m))"
    by (simp add: eq)
qed

lemma sublist_filter_length:
  assumes "sublist xs ys"
  shows "length (filter P xs) \<le> length (filter P ys)"
proof -
  from assms obtain ps ss where "ys = ps @ xs @ ss" by (auto simp: sublist_def)
  then show ?thesis by simp
qed

text \<open>
  Claim C7, as stated, fails, in four ways, each with the circuit open and a chunk of
  non-empty content retrieved. With four chunks the text of the fourth is absent: the
  fallback quotes the first three only. A chunk of 501 characters is not contained in
  full: the content is cut to 500 characters. A chunk that begins with a space is quoted
  without it: the content is stripped. And for a chunk that is a single space the answer
  is the fixed text about unreadable content, with no banner.
\<close>

theorem degraded_answer_counterexample:
  "call_hf_api default_settings
      \<lparr>t_can_execute = 10000000, t_rate_limit = 10000001, t_failure = 10000002,
       cached = None, provider = Inl ''connection refused''\<rparr>
      \<lparr>circuit_breaker = \<lparr>failure_count = 5, last_failure_time = Some 0, state = OPEN\<rparr>,
       request_timestamps = [], ai_mock_mode = False, model_name = ''mistral''\<rparr> =
     (Inl (HFInferenceError ''Circuit breaker is OPEN - service temporarily unavailable''),
      \<lparr>circuit_breaker = \<lparr>failure_count = 5, last_failure_time = Some 0, state = OPEN\<rparr>,
       request_timestamps = [], ai_mock_mode = False, model_name = ''mistral''\<rparr>, False) \<and>
   has_content [sample_doc ''alpha'' (9 / 10), sample_doc ''beta'' (4 / 5),
       sample_doc ''gamma'' (7 / 10), sample_doc ''delta'' (3 / 5)] \<and>
   \<not> sublist ''delta''
       (a_answer (fst (generate_answer default_settings
      \<lparr>t_can_execute = 10000000, t_rate_limit = 10000001, t_failure = 10000002,
       cached = None, provider = Inl ''connection refused''\<rparr>
      \<lparr>circuit_breaker = \<lparr>failure_count = 5, last_failure_time = Some 0, state = OPEN\<rparr>,
       request_timestamps = [], ai_mock_mode = False, model_name = ''mistral''\<rparr>
      ''What is the leave policy?''
      [sample_doc ''alpha'' (9 / 10), sample_doc ''beta'' (4 / 5),
       sample_doc ''gamma'' (7 / 10), sample_doc ''delta'' (3 / 5)]))) \<and>
   has_content [sample_doc (replicate 501 (CHR ''z'')) (9 / 10)] \<and>
   \<not> sublist (replicate 501 (CHR ''z''))
       (a_answer (fst (generate_answer default_settings
      \<lparr>t_can_execute = 10000000, t_rate_limit = 10000001, t_failure = 10000002,
       cached = None, provider = Inl ''connection refused''\<rparr>
      \<lparr>circuit_breaker = \<lparr>failure_count = 5, last_failure_time = Some 0, state = OPEN\<rparr>,
       request_timestamps = [], ai_mock_mode = False, model_name = ''mistral''\<rparr>
      ''What is the leave policy?''
      [sample_doc (replicate 501 (CHR ''z'')) (9 / 10)]))) \<and>
   has_content [sample_doc '' alpha'' (9 / 10)] \<and>
   \<not> sublist '' alpha''
       (a_answer (fst (generate_answer default_settings
      \<lparr>t_can_execute = 10000000, t_rate_limit = 10000001, t_failure = 10000002,
       cached = None, provider = Inl ''connection refused''\<rparr>
      \<lparr>circuit_breaker = \<lparr>failure_count = 5, last_failure_time = Some 0, state = OPEN\<rparr>,
       request_timestamps = [], ai_mock_mode = False, model_name = ''mistral''\<rparr>
      ''What is the leave policy?''
      [sample_doc '' alpha'' (9 / 10)]))) \<and>
   has_content [sample_doc '' '' (9 / 10)] \<and>
   (a_answer (fst (generate_answer default_settings
      \<lparr>t_can_execute = 10000000, t_rate_limit = 10000001, t_failure = 10000002,
       cached = None, provider = Inl ''connection refused''\<rparr>
      \<lparr>circuit_breaker = \<lparr>failure_count = 5, last_failure_time = Some 0, state = OPEN\<rparr>,
       request_timestamps = [], ai_mock_mode = False, model_name = ''mistral''\<rparr>
      ''What is the leave policy?''
      [sample_doc '' '' (9 / 10)]))) =
     ''I found some documents but couldn't extract readable content. Please try rephrasing your question.'' \<and>
   \<not> sublist fallback_banner
       (a_answer (fst (generate_answer default_settings
      \<lparr>t_can_execute = 10000000, t_rate_limit = 10000001, t_failure = 10000002,
       cached = None, provider = Inl ''connection refused''\<rparr>
      \<lparr>circuit_breaker = \<lparr>failure_count = 5, last_failure_time = Some 0, state = OPEN\<rparr>,
       request_timestamps = [], ai_mock_mode = False, model_name = ''mistral''\<rparr>
      ''What is the leave policy?''
      [sample_doc '' '' (9 / 10)])))"
proof -
  let ?env = "\<lparr>t_can_execute = 10000000, t_rate_limit = 10000001, t_failure = 10000002,
       cached = None, provider = Inl ''connection refused''\<rparr>"
  let ?s = "\<lparr>circuit_breaker = \<lparr>failure_count = 5, last_failure_time = Some 0, state = OPEN\<rparr>,
       request_timestamps = [], ai_mock_mode = False, model_name = ''mistral''\<rparr>"
  let ?q = "''What is the leave policy?''"
  have call: "call_hf_api default_settings ?env ?s =
     (Inl (HFInferenceError ''Circuit breaker is OPEN - service temporarily unavailable''), ?s, False)"
    by (simp add: call_hf_api_def can_execute_def seconds_def default_settings_def)
  have cont: "cd_content (sample_doc c sc) = c" for c sc
    by (simp add: sample_doc_def)
  have src: "fallback_source (sample_doc c sc) = ''[handbook.pdf, Page 2]''" for c sc
    by (simp add: fallback_source_def sample_doc_def str_opt_def str_int_def str_nat.simps
        digit_char_def)
  have ans: "a_answer (fst (generate_answer default_settings ?env ?s ?q docs))
      = generate_context_fallback docs" if "has_content docs" for docs
    using call that by (simp add: generate_answer_def)
  have strip_simps: "strip ''alpha'' = ''alpha''" "strip ''beta'' = ''beta''"
    "strip ''gamma'' = ''gamma''" "strip '' alpha'' = ''alpha''" "strip '' '' = []"
    by (simp_all add: strip_def is_space_def)
  have strip_long: "strip (replicate 501 (CHR ''z'')) = replicate 501 (CHR ''z'')"
    by (simp add: strip_def is_space_def dropWhile_replicate)

  let ?d4 = "[sample_doc ''alpha'' (9 / 10), sample_doc ''beta'' (4 / 5),
       sample_doc ''gamma'' (7 / 10), sample_doc ''delta'' (3 / 5)]"
  have hc4: "has_content ?d4"
    by (simp add: has_content_def cont)
  have fb4: "generate_context_fallback ?d4 =
      fallback_banner @ ''[handbook.pdf, Page 2]:'' @ [CHR 0x0A] @ ''alpha'' @ excerpt_separator
      @ ''[handbook.pdf, Page 2]:'' @ [CHR 0x0A] @ ''beta'' @ excerpt_separator
      @ ''[handbook.pdf, Page 2]:'' @ [CHR 0x0A] @ ''gamma'' @ fallback_footer"
    by (simp add: generate_context_fallback_def relevant_content_def fallback_excerpt_def src
        cont truncate_content_def strip_simps)
  have n4: "\<not> sublist ''delta'' (generate_context_fallback ?d4)"
    unfolding fb4
    by (simp add: fallback_banner_def fallback_footer_def excerpt_separator_def sublist_code(3))

  let ?dl = "[sample_doc (replicate 501 (CHR ''z'')) (9 / 10)]"
  have hcl: "has_content ?dl"
    by (simp add: has_content_def cont)
  have fbl: "generate_context_fallback ?dl =
      fallback_banner @ ''[handbook.pdf, Page 2]:'' @ [CHR 0x0A]
      @ replicate 500 (CHR ''z'') @ ''...'' @ fallback_footer"
    by (simp add: generate_context_fallback_def relevant_content_def fallback_excerpt_def src
        cont truncate_content_def strip_long)
  have count: "length (filter (\<lambda>c. c = CHR ''z'') (generate_context_fallback ?dl)) = 500"
    unfolding fbl
    by (simp add: fallback_banner_def fallback_footer_def)
  have nl: "\<not> sublist (replicate 501 (CHR ''z'')) (generate_context_fallback ?dl)"
  proof
    assume "sublist (replicate 501 (CHR ''z'')) (generate_context_fallback ?dl)"
    from sublist_filter_length[OF this, of "\<lambda>c. c = CHR ''z''"] count
    show False by simp
  qed

  let ?ds = "[sample_doc '' alpha'' (9 / 10)]"
  have hcs: "has_content ?ds"
    by (simp add: has_content_def cont)
  have fbs: "generate_context_fallback ?ds =
      fallback_banner @ ''[handbook.pdf, Page 2]:'' @ [CHR 0x0A] @ ''alpha'' @ fallback_footer"
    by (simp add: generate_context_fallback_def relevant_content_def fallback_excerpt_def src
        cont truncate_content_def strip_simps)
  have ns: "\<not> sublist '' alpha'' (generate_context_fallback ?ds)"
    unfolding fbs
    by (simp add: fallback_banner_def fallback_footer_def sublist_code(3))

  let ?db = "[sample_doc '' '' (9 / 10)]"
  have hcb: "has_content ?db"
    by (simp add: has_content_def cont)
  have fbb: "generate_context_fallback ?db =
      ''I found some documents but couldn't extract readable content. Please try rephrasing your question.''"
    by (simp add: generate_context_fallback_def relevant_content_def cont strip_simps)
  have nb: "\<not> sublist fallback_banner (generate_context_fallback ?db)"
    unfolding fbb
    by (simp add: fallback_banner_def sublist_code(3))

  from call hc4 n4 hcl nl hcs ns hcb fbb nb show ?thesis
    by (simp only: ans[OF hc4] ans[OF hcl] ans[OF hcs] ans[OF hcb] simp_thms)
qed

theorem degraded_answer_witness:
  "\<not> ai_mock_mode
       \<lparr>circuit_breaker = \<lparr>failure_count = 5, last_failure_time = Some 0, state = OPEN\<rparr>,
        request_timestamps = [], ai_mock_mode = False, model_name = ''mistral''\<rparr> \<and>
   call_hf_api default_settings
      \<lparr>t_can_execute = 10000000, t_rate_limit = 10000001, t_failure = 10000002,
       cached = None, provider = Inl ''connection refused''\<rparr>
      \<lparr>circuit_breaker = \<lparr>failure_count = 5, last_failure_time = Some 0, state = OPEN\<rparr>,
       request_timestamps = [], ai_mock_mode = False, model_name = ''mistral''\<rparr> =
     (Inl (HFInferenceError ''Circuit breaker is OPEN - service temporarily unavailable''),
      \<lparr>circuit_breaker = \<lparr>failure_count = 5, last_failure_time = Some 0, state = OPEN\<rparr>,
       request_timestamps = [], ai_mock_mode = False, model_name = ''mistral''\<rparr>, False) \<and>
   has_content [sample_doc ''alpha'' (9 / 10), sample_doc ''beta'' (4 / 5)] \<and>
   a_model_used (fst (generate_answer default_settings
      \<lparr>t_can_execute = 10000000, t_rate_limit = 10000001, t_failure = 10000002,
       cached = None, provider = Inl ''connection refused''\<rparr>
      \<lparr>circuit_breaker = \<lparr>failure_count = 5, last_failure_time = Some 0, state = OPEN\<rparr>,
       request_timestamps = [], ai_mock_mode = False, model_name = ''mistral''\<rparr>
      ''What is the leave policy?''
      [sample_doc ''alpha'' (9 / 10), sample_doc ''beta'' (4 / 5)])) = ''fallback (HF API unavailable)'' \<and>
   a_confidence_score (fst (generate_answer default_settings
      \<lparr>t_can_execute = 10000000, t_rate_limit = 10000001, t_failure = 10000002,
       cached = None, provider = Inl ''connection refused''\<rparr>
      \<lparr>circuit_breaker = \<lparr>failure_count = 5, last_failure_time = Some 0, state = OPEN\<rparr>,
       request_timestamps = [], ai_mock_mode = False, model_name = ''mistral''\<rparr>
      ''What is the leave policy?''
      [sample_doc ''alpha'' (9 / 10), sample_doc ''beta'' (4 / 5)])) = 1 / 2 \<and>
   prefix fallback_banner (a_answer (fst (generate_answer default_settings
      \<lparr>t_can_execute = 10000000, t_rate_limit = 10000001, t_failure = 10000002,
       cached = None, provider = Inl ''connection refused''\<rparr>
      \<lparr>circuit_breaker = \<lparr>failure_count = 5, last_failure_time = Some 0, state = OPEN\<rparr>,
       request_timestamps = [], ai_mock_mode = False, model_name = ''mistral''\<rparr>
      ''What is the leave policy?''
      [sample_doc ''alpha'' (9 / 10), sample_doc ''beta'' (4 / 5)]))) \<and>
   sublist (''[handbook.pdf, Page 2]:'' @ [CHR 0x0A] @ ''alpha'')
     (a_answer (fst (generate_answer default_settings
      \<lparr>t_can_execute = 10000000, t_rate_limit = 10000001, t_failure = 10000002,
       cached = None, provider = Inl ''connection refused''\<rparr>
      \<lparr>circuit_breaker = \<lparr>failure_count = 5, last_failure_time = Some 0, state = OPEN\<rparr>,
       request_timestamps = [], ai_mock_mode = False, model_name = ''mistral''\<rparr>
      ''What is the leave policy?''
      [sample_doc ''alpha'' (9 / 10), sample_doc ''beta'' (4 / 5)]))) \<and>
   sublist (''[handbook.pdf, Page 2]:'' @ [CHR 0x0A] @ ''beta'')
     (a_answer (fst (generate_answer default_settings
      \<lparr>t_can_execute = 10000000, t_rate_limit = 10000001, t_failure = 10000002,
       cached = None, provider = Inl ''connection refused''\<rparr>
      \<lparr>circuit_breaker = \<lparr>failure_count = 5, last_failure_time = Some 0, state = OPEN\<rparr>,
       request_timestamps = [], ai_mock_mode = False, model_name = ''mistral''\<rparr>
      ''What is the leave policy?''
      [sample_doc ''alpha'' (9 / 10), sample_doc ''beta'' (4 / 5)]))) \<and>
   \<not> has_content [] \<and>
   a_citations (fst (generate_answer default_settings
      \<lparr>t_can_execute = 10000000, t_rate_limit = 10000001, t_failure = 10000002,
       cached = None, provider = Inl ''connection refused''\<rparr>
      \<lparr>circuit_breaker = \<lparr>failure_count = 5, last_failure_time = Some 0, state = OPEN\<rparr>,
       request_timestamps = [], ai_mock_mode = False, model_name = ''mistral''\<rparr>
      ''What is the leave policy?'' [])) = []"
proof -
  let ?env = "\<lparr>t_can_execute = 10000000, t_rate_limit = 10000001, t_failure = 10000002,
       cached = None, provider = Inl ''connection refused''\<rparr>"
  let ?s = "\<lparr>circuit_breaker = \<lparr>failure_count = 5, last_failure_time = Some 0, state = OPEN\<rparr>,
       request_timestamps = [], ai_mock_mode = False, model_name = ''mistral''\<rparr>"
  let ?docs = "[sample_doc ''alpha'' (9 / 10), sample_doc ''beta'' (4 / 5)]"
  let ?q = "''What is the leave policy?''"
  have real: "\<not> ai_mock_mode ?s" by simp
  have call: "call_hf_api default_settings ?env ?s =
     (Inl (HFInferenceError ''Circuit breaker is OPEN - service temporarily unavailable''), ?s, False)"
    by (simp add: call_hf_api_def can_execute_def seconds_def default_settings_def)
  have hc: "has_content ?docs"
    by (simp add: has_content_def sample_doc_def)
  have nc: "\<not> has_content []"
    by (simp add: has_content_def)
  have cont: "cd_content (sample_doc c sc) = c" for c sc
    by (simp add: sample_doc_def)
  have strips: "strip ''alpha'' = ''alpha''" "strip ''beta'' = ''beta''"
    by (simp_all add: strip_def is_space_def)
  have src: "fallback_source (sample_doc c sc) = ''[handbook.pdf, Page 2]''" for c sc
    by (simp add: fallback_source_def sample_doc_def str_opt_def str_int_def str_nat.simps
        digit_char_def)
  have ex: "\<exists>d \<in> set (take 3 ?docs). strip (cd_content d) \<noteq> []"
    by (simp add: cont strips)
  note full = degraded_answer[OF real call, where docs = ?docs and query = ?q]
  note none = degraded_answer[OF real call, where docs = "[]" and query = ?q]
  from full hc have flag: "a_model_used (fst (generate_answer default_settings ?env ?s ?q ?docs))
      = ''fallback (HF API unavailable)''"
    and conf: "a_confidence_score (fst (generate_answer default_settings ?env ?s ?q ?docs)) = 1 / 2"
    by blast+
  from full hc ex
  have banner: "prefix fallback_banner
      (a_answer (fst (generate_answer default_settings ?env ?s ?q ?docs)))"
    and each: "\<forall>d \<in> set (take 3 ?docs). strip (cd_content d) \<noteq> [] \<longrightarrow>
        sublist (fallback_source d @ '':'' @ [CHR 0x0A] @ truncate_content (strip (cd_content d)))
          (a_answer (fst (generate_answer default_settings ?env ?s ?q ?docs)))"
    by blast+
  from each have a: "sublist (''[handbook.pdf, Page 2]:'' @ [CHR 0x0A] @ ''alpha'')
      (a_answer (fst (generate_answer default_settings ?env ?s ?q ?docs)))"
    and b: "sublist (''[handbook.pdf, Page 2]:'' @ [CHR 0x0A] @ ''beta'')
      (a_answer (fst (generate_answer default_settings ?env ?s ?q ?docs)))"
    by (simp_all add: cont strips src truncate_content_def)
  from none nc have cit: "a_citations (fst (generate_answer default_settings ?env ?s ?q [])) = []"
    by blast
  from real call hc flag conf banner a b nc cit show ?thesis by blast
qed

end
